theory Spec2Isabelle
  imports
    Complex_Main
    "HOL-Library.Char_ord"
    "HOL-Library.List_Lexorder"
    "HOL-Library.Log_Nat"
    "HOL-Library.Product_Lexorder"
begin
section \<open>Student progress monitoring: data model\<close>

text \<open>
  A pandas cell is a number, a piece of text or a missing value. The integer and float
  dtypes are not told apart: a number is its value, and a column of dtype \<open>Int64\<close> holds
  whole numbers. Numbers are doubles; their values are rationals, and the rounding that
  double arithmetic performs is written out (\<open>fl\<close> below) where the code multiplies.
\<close>

datatype cell = Num rat | Str string | NaN

datatype py_error =
    FileNotFoundError string
  | KeyError string "string list" "string list"
  | ColumnKeyError string
  | TypeError
  | ZeroDivisionError
  | DatabaseError string

text \<open>
  The order pandas sorts by: numbers by value, text by code points, and numbers before
  text where both occur among identifiers.
\<close>

type_synonym skey = "nat \<times> rat \<times> string"

definition cell_key :: "cell \<Rightarrow> skey" where
  "cell_key c = (case c of Num x \<Rightarrow> (0, x, []) | Str s \<Rightarrow> (1, 0, s) | NaN \<Rightarrow> (2, 0, []))"



definition take_rows :: "'a list \<Rightarrow> nat list \<Rightarrow> 'a list" where
  "take_rows xs p = map (\<lambda>i. xs ! i) p"

definition sort_by :: "(skey list \<Rightarrow> nat list) \<Rightarrow> ('a \<Rightarrow> skey) \<Rightarrow> 'a list \<Rightarrow> 'a list" where
  "sort_by argsort key xs = take_rows xs (argsort (map key xs))"

text \<open>An argsort that is stable, for running the model: insertion sort of the positions.\<close>

definition insertion_argsort :: "skey list \<Rightarrow> nat list" where
  "insertion_argsort ks = sort_key (\<lambda>i. ks ! i) [0..<length ks]"

subsection \<open>The store\<close>

record sql_table =
  tcolumns :: "string list"
  trows :: "cell list list"

type_synonym store = "string \<Rightarrow> sql_table option"

definition field :: "string list \<Rightarrow> cell list \<Rightarrow> string \<Rightarrow> cell" where
  "field cols r c = (case map_of (zip cols r) c of Some v \<Rightarrow> v | None \<Rightarrow> NaN)"

section \<open>underperformingStudent.py\<close>

text \<open>\<open>pd.read_sql_query("SELECT research_id, Grade FROM t", conn)\<close>\<close>

definition select_id_grade :: "store \<Rightarrow> string \<Rightarrow> py_error + (cell \<times> cell) list" where
  "select_id_grade db t =
     (case db t of
        None \<Rightarrow> Inl (DatabaseError t)
      | Some tb \<Rightarrow>
          if ''research_id'' \<in> set (tcolumns tb) \<and> ''Grade'' \<in> set (tcolumns tb)
          then Inr (map (\<lambda>r. (field (tcolumns tb) r ''research_id'', field (tcolumns tb) r ''Grade''))
                      (trows tb))
          else Inl (DatabaseError t))"

text \<open>\<open>dropna(subset=["research_id", "Grade"])\<close>\<close>

definition dropna :: "(cell \<times> cell) list \<Rightarrow> (cell \<times> cell) list" where
  "dropna rs = filter (\<lambda>r. fst r \<noteq> NaN \<and> snd r \<noteq> NaN) rs"

definition formative_tables :: "string list" where
  "formative_tables = [''Test_1'', ''Test_2'', ''Test_3'', ''Test_4'', ''Mock_Test'']"

text \<open>The loop over the formative tables: each frame is tagged with its table name.\<close>

fun read_formative :: "store \<Rightarrow> string list \<Rightarrow> py_error + (cell \<times> cell \<times> string) list" where
  "read_formative db [] = Inr []"
| "read_formative db (t # ts) =
     (case select_id_grade db t of
        Inl e \<Rightarrow> Inl e
      | Inr df \<Rightarrow>
          (case read_formative db ts of
             Inl e \<Rightarrow> Inl e
           | Inr rest \<Rightarrow> Inr (map (\<lambda>(i, g). (i, g, t)) (dropna df) @ rest)))"

text \<open>
  A comparison of the Grade column with a number, and its mean, raise \<open>TypeError\<close> when a
  grade is text; otherwise every grade left by \<open>dropna\<close> is a number.
\<close>

fun grade_value :: "cell \<Rightarrow> rat option" where
  "grade_value (Num x) = Some x"
| "grade_value _ = None"

definition numeric_grades :: "cell list \<Rightarrow> bool" where
  "numeric_grades gs = list_all (\<lambda>g. grade_value g \<noteq> None) gs"

definition load_frames ::
  "store \<Rightarrow> py_error + ((cell \<times> rat) list \<times> (cell \<times> rat \<times> string) list)" where
  "load_frames db =
     (case select_id_grade db ''Sum_Test'' of
        Inl e \<Rightarrow> Inl e
      | Inr s \<Rightarrow>
          (case read_formative db formative_tables of
             Inl e \<Rightarrow> Inl e
           | Inr f \<Rightarrow>
               if numeric_grades (map (\<lambda>(i, g, t). g) f) \<and> numeric_grades (map snd (dropna s))
               then Inr (map (\<lambda>(i, g). (i, the (grade_value g))) (dropna s),
                         map (\<lambda>(i, g, t). (i, the (grade_value g), t)) f)
               else Inl TypeError))"

text \<open>Step 3: \<open>df_formative[Grade > 0].groupby("research_id").size()\<close>\<close>

definition df_attended :: "(cell \<times> rat \<times> string) list \<Rightarrow> (cell \<times> rat \<times> string) list" where
  "df_attended f = filter (\<lambda>(i, g, t). g > 0) f"

definition df_attempts :: "(cell \<times> rat \<times> string) list \<Rightarrow> (cell \<times> nat) list" where
  "df_attempts f =
     map (\<lambda>k. (k, length (filter (\<lambda>r. fst r = k) (df_attended f))))
       (sort_key cell_key (remdups (map fst (df_attended f))))"

text \<open>
  Step 4: \<open>sort_values(["research_id", "Grade", "Test"]).groupby("research_id").first()\<close>.
  A sort on several columns is pandas' lexicographic sort, which is stable.
\<close>

fun groupby_first :: "('k \<times> 'v) list \<Rightarrow> ('k \<times> 'v) list" where
  "groupby_first [] = []"
| "groupby_first ((k, v) # rs) = (k, v) # groupby_first (filter (\<lambda>r. fst r \<noteq> k) rs)"

definition df_low :: "(cell \<times> rat \<times> string) list \<Rightarrow> (cell \<times> rat \<times> string) list" where
  "df_low f = groupby_first (sort_key (\<lambda>(i, g, t). (cell_key i, g, t)) (df_attended f))"

text \<open>
  Step 5: the mean of the summative grades (of an empty column it is NaN, and no grade is
  below NaN), the rows below it, sorted by grade. The grades of a normalised table are
  whole numbers, whose sum a double holds exactly; the quotient is taken exactly here.
\<close>

definition mean :: "rat list \<Rightarrow> rat option" where
  "mean xs = (if xs = [] then None else Some (sum_list xs / of_nat (length xs)))"

definition df_under :: "(skey list \<Rightarrow> nat list) \<Rightarrow> (cell \<times> rat) list \<Rightarrow> (cell \<times> rat) list" where
  "df_under argsort s =
     (case mean (map snd s) of
        None \<Rightarrow> []
      | Some sum_average \<Rightarrow>
          sort_by argsort (\<lambda>r. cell_key (Num (snd r))) (filter (\<lambda>r. snd r < sum_average) s))"

text \<open>Step 6: \<open>pd.merge(left, right, on="research_id", how="left")\<close>\<close>

definition merge_left :: "('k \<times> 'a) list \<Rightarrow> ('k \<times> 'b) list \<Rightarrow> ('k \<times> 'a \<times> 'b option) list" where
  "merge_left l r =
     concat (map (\<lambda>(k, a).
        case filter (\<lambda>m. fst m = k) r of
          [] \<Rightarrow> [(k, a, None)]
        | ms \<Rightarrow> map (\<lambda>m. (k, a, Some (snd m))) ms) l)"

record under_row =
  research_id :: cell
  Summative_Grade :: rat
  Lowest_Formative_Grade :: "rat option"
  Lowest_Formative_Test :: "string option"
  Attempts :: nat

text \<open>Steps 6 and 7: both merges, \<open>fillna(0)\<close> on the attempts, the filter \<open>Attempts >= 3\<close>.\<close>

definition df_result ::
  "(skey list \<Rightarrow> nat list) \<Rightarrow> (cell \<times> rat) list \<Rightarrow> (cell \<times> rat \<times> string) list \<Rightarrow> under_row list" where
  "df_result argsort s f =
     filter (\<lambda>r. Attempts r \<ge> 3)
       (map (\<lambda>(k, (g, a), low).
               \<lparr>research_id = k, Summative_Grade = g,
                Lowest_Formative_Grade = map_option fst low,
                Lowest_Formative_Test = map_option snd low,
                Attempts = (case a of None \<Rightarrow> 0 | Some n \<Rightarrow> n)\<rparr>)
          (merge_left (merge_left (df_under argsort s) (df_attempts f)) (df_low f)))"

text \<open>
  What a call leaves behind: the exception it ended with, if any, whether the connection
  it opened was closed, and what it printed. The underperformance analysis adds the table
  it printed and the two bar series (summative grade, lowest formative grade with missing
  values as 0) it charted.
\<close>

record call_outcome =
  raised :: "py_error option"
  conn_closed :: bool
  stdout :: "string list"

record under_outcome = call_outcome +
  table :: "under_row list option"
  chart :: "(rat list \<times> rat list) option"

definition find_underperforming_students :: "(skey list \<Rightarrow> nat list) \<Rightarrow> store \<Rightarrow> under_outcome" where
  "find_underperforming_students argsort db =
     (case load_frames db of
        Inl e \<Rightarrow>
          \<lparr>raised = Some e, conn_closed = False, stdout = [], table = None, chart = None\<rparr>
      | Inr (s, f) \<Rightarrow>
          (let res = df_result argsort s f in
           if res = [] then
             \<lparr>raised = None, conn_closed = True,
              stdout = [''No underperforming students found (after inactive filter).''],
              table = None, chart = None\<rparr>
           else
             \<lparr>raised = None, conn_closed = True, stdout = [],
              table = Some res,
              chart = Some (map Summative_Grade res,
                            map (\<lambda>r. case Lowest_Formative_Grade r of None \<Rightarrow> 0 | Some g \<Rightarrow> g) res)\<rparr>))"

section \<open>Double arithmetic\<close>

text \<open>
  A product or quotient of two doubles is the exact result rounded to the nearest double,
  ties to the even mantissa. \<open>fl\<close> is that rounding on the range of normal doubles (53
  significant bits); overflow and subnormal numbers are not modelled. \<open>rint\<close> is what
  \<open>round()\<close> of a pandas column does: the nearest whole number, ties to the even one.
\<close>

definition rint :: "rat \<Rightarrow> int" where
  "rint x =
     (let n = \<lfloor>x\<rfloor>; d = x - of_int n in
      if d < 1 / 2 then n else if 1 / 2 < d then n + 1 else if even n then n else n + 1)"

definition pow2 :: "int \<Rightarrow> rat" where
  "pow2 e = (if 0 \<le> e then 2 ^ nat e else 1 / 2 ^ nat (- e))"

text \<open>The binary exponent of a positive number: \<open>pow2 (ilog2 x) \<le> x < pow2 (ilog2 x + 1)\<close>.\<close>

definition ilog2 :: "rat \<Rightarrow> int" where
  "ilog2 x =
     (let (p, q) = quotient_of x;
          d = bitlen p - bitlen q
      in if pow2 d \<le> x then d else d - 1)"

definition fl :: "rat \<Rightarrow> rat" where
  "fl x = (if x = 0 then 0 else let e = ilog2 \<bar>x\<bar> - 52 in of_int (rint (x / pow2 e)) * pow2 e)"

definition fmul :: "rat \<Rightarrow> rat \<Rightarrow> rat" where
  "fmul x y = fl (x * y)"

definition fdiv :: "rat \<Rightarrow> rat \<Rightarrow> rat" where
  "fdiv x y = fl (x / y)"

section \<open>CWPreprocessing.py\<close>

text \<open>
  A DataFrame is its column labels and its rows, each row with its index label and one
  cell per column. Cells are read by label through the first column of that label; the
  frames of \<open>read_csv\<close> have distinct labels. A CSV file is what \<open>read_csv\<close> parses
  it to: the header and the typed cells of each line.
\<close>

record dataframe =
  columns :: "string list"
  rows :: "(nat \<times> cell list) list"

record csv_file =
  header :: "string list"
  lines :: "cell list list"

type_synonym filesystem = "string \<Rightarrow> csv_file option"

record preprocessor =
  db_path :: string
  file_test_1 :: string
  file_test_2 :: string
  file_test_3 :: string
  file_test_4 :: string
  file_mock :: string
  file_rate :: string
  file_sum :: string

definition and_then :: "py_error + 'a \<Rightarrow> ('a \<Rightarrow> py_error + 'b) \<Rightarrow> py_error + 'b" where
  "and_then m f = (case m of Inl e \<Rightarrow> Inl e | Inr x \<Rightarrow> f x)"

definition read_csv :: "filesystem \<Rightarrow> string \<Rightarrow> py_error + dataframe" where
  "read_csv fs csv_path =
     (case fs csv_path of
        None \<Rightarrow> Inl (FileNotFoundError csv_path)
      | Some f \<Rightarrow> Inr \<lparr>columns = header f, rows = zip [0..<length (lines f)] (lines f)\<rparr>)"

text \<open>\<open>str.strip()\<close>: the ASCII whitespace characters.\<close>

definition is_space :: "char \<Rightarrow> bool" where
  "is_space c \<longleftrightarrow> c \<in> set [CHR '' '', CHR 0x09, CHR 0x0A, CHR 0x0B, CHR 0x0C, CHR 0x0D,
                          CHR 0x1C, CHR 0x1D, CHR 0x1E, CHR 0x1F]"

definition strip :: "string \<Rightarrow> string" where
  "strip s = rev (dropWhile is_space (rev (dropWhile is_space s)))"

definition strip_column_names :: "dataframe \<Rightarrow> dataframe" where
  "strip_column_names df = df\<lparr>columns := map strip (columns df)\<rparr>"

definition apply_rename :: "dataframe \<Rightarrow> (string \<times> string) list \<Rightarrow> dataframe" where
  "apply_rename df rename_map =
     df\<lparr>columns := map (\<lambda>c. case map_of rename_map c of Some c' \<Rightarrow> c' | None \<Rightarrow> c) (columns df)\<rparr>"

text \<open>The value of column \<open>c\<close> in a row, and a column as a list.\<close>

definition cell_at :: "dataframe \<Rightarrow> string \<Rightarrow> nat \<times> cell list \<Rightarrow> cell" where
  "cell_at df c r = field (columns df) (snd r) c"

definition column_values :: "dataframe \<Rightarrow> string \<Rightarrow> cell list" where
  "column_values df c = map (cell_at df c) (rows df)"

text \<open>\<open>df[c] = f(df[c])\<close>\<close>

definition update_column :: "string \<Rightarrow> (cell \<Rightarrow> cell) \<Rightarrow> dataframe \<Rightarrow> dataframe" where
  "update_column c f df =
     df\<lparr>rows := map (\<lambda>(i, cs). (i, map (\<lambda>(n, v). if n = c then f v else v) (zip (columns df) cs)))
                   (rows df)\<rparr>"

subsection \<open>clean\_numeric\_columns\<close>

text \<open>
  \<open>df.replace("-", 0)\<close>, then \<open>pd.to_numeric(errors="coerce").fillna(0)\<close> on each listed
  column the frame has. The library's parser of numbers is a parameter: \<open>num s\<close> is the
  number the text \<open>s\<close> denotes, if it denotes one.
\<close>

fun replace_dash :: "cell \<Rightarrow> cell" where
  "replace_dash (Str s) = (if s = ''-'' then Num 0 else Str s)"
| "replace_dash c = c"

fun to_numeric :: "(string \<Rightarrow> rat option) \<Rightarrow> cell \<Rightarrow> cell" where
  "to_numeric num (Num x) = Num x"
| "to_numeric num (Str s) = (case num s of Some x \<Rightarrow> Num x | None \<Rightarrow> NaN)"
| "to_numeric num NaN = NaN"

fun fillna0 :: "cell \<Rightarrow> cell" where
  "fillna0 NaN = Num 0"
| "fillna0 c = c"

definition clean_numeric_columns ::
  "(string \<Rightarrow> rat option) \<Rightarrow> dataframe \<Rightarrow> string list \<Rightarrow> dataframe" where
  "clean_numeric_columns num df cols =
     fold (\<lambda>col d. if col \<in> set (columns d) then update_column col (\<lambda>v. fillna0 (to_numeric num v)) d else d)
       cols
       (df\<lparr>rows := map (\<lambda>(i, cs). (i, map replace_dash cs)) (rows df)\<rparr>)"

subsection \<open>keep\_best\_attempt\<close>

text \<open>
  \<open>sort_values("Grade", ascending=False)\<close>: the rows with a grade, reversed, sorted in
  ascending order by the library's argsort and reversed again, then the rows without a
  grade in their own order. Comparing a number with text raises \<open>TypeError\<close>.
\<close>

fun is_text :: "cell \<Rightarrow> bool" where
  "is_text (Str s) = True"
| "is_text _ = False"

fun is_number :: "cell \<Rightarrow> bool" where
  "is_number (Num x) = True"
| "is_number _ = False"

definition sort_values_desc ::
  "(skey list \<Rightarrow> nat list) \<Rightarrow> dataframe \<Rightarrow> string \<Rightarrow> py_error + dataframe" where
  "sort_values_desc argsort df by =
     (if by \<notin> set (columns df) then Inl (ColumnKeyError by)
      else if list_ex is_text (column_values df by) \<and> list_ex is_number (column_values df by)
      then Inl TypeError
      else Inr (df\<lparr>rows :=
              rev (sort_by argsort (\<lambda>r. cell_key (cell_at df by r))
                     (rev (filter (\<lambda>r. cell_at df by r \<noteq> NaN) (rows df))))
              @ filter (\<lambda>r. cell_at df by r = NaN) (rows df)\<rparr>))"

text \<open>\<open>drop_duplicates(subset=[c], keep="first")\<close>\<close>

fun keep_first :: "('a \<Rightarrow> 'k) \<Rightarrow> 'a list \<Rightarrow> 'a list" where
  "keep_first key [] = []"
| "keep_first key (r # rs) = r # keep_first key (filter (\<lambda>x. key x \<noteq> key r) rs)"

definition drop_duplicates :: "dataframe \<Rightarrow> string \<Rightarrow> py_error + dataframe" where
  "drop_duplicates df c =
     (if c \<notin> set (columns df) then Inl (ColumnKeyError c)
      else Inr (df\<lparr>rows := keep_first (cell_at df c) (rows df)\<rparr>))"

definition sort_index :: "(skey list \<Rightarrow> nat list) \<Rightarrow> dataframe \<Rightarrow> dataframe" where
  "sort_index argsort df = df\<lparr>rows := sort_by argsort (\<lambda>r. (0, of_nat (fst r), [])) (rows df)\<rparr>"

definition keep_best_attempt :: "(skey list \<Rightarrow> nat list) \<Rightarrow> dataframe \<Rightarrow> py_error + dataframe" where
  "keep_best_attempt argsort df =
     and_then (sort_values_desc argsort df ''Grade'') (\<lambda>df.
     and_then (drop_duplicates df ''research_id'') (\<lambda>df.
     Inr (sort_index argsort df)))"

subsection \<open>The other steps\<close>

definition remove_redundant_columns :: "dataframe \<Rightarrow> string list \<Rightarrow> dataframe" where
  "remove_redundant_columns df cols_to_drop =
     (let existing = filter (\<lambda>c. c \<in> set (columns df)) cols_to_drop in
      \<lparr>columns = filter (\<lambda>n. n \<notin> set existing) (columns df),
       rows = map (\<lambda>(i, cs). (i, map snd (filter (\<lambda>(n, v). n \<notin> set existing) (zip (columns df) cs))))
                (rows df)\<rparr>)"

text \<open>
  Arithmetic on a column: \<open>KeyError\<close> when the frame has no such column, \<open>TypeError\<close>
  when a cell of it is text; a missing value stays missing.
\<close>

definition arith_column :: "string \<Rightarrow> (rat \<Rightarrow> rat) \<Rightarrow> dataframe \<Rightarrow> py_error + dataframe" where
  "arith_column c f df =
     (if c \<notin> set (columns df) then Inl (ColumnKeyError c)
      else if list_ex is_text (column_values df c) then Inl TypeError
      else Inr (update_column c (\<lambda>v. case v of Num x \<Rightarrow> Num (f x) | _ \<Rightarrow> v) df))"

text \<open>\<open>(df["Grade"] * (10000 / grade_total)).round().astype("Int64")\<close>\<close>

definition normalise_grade_to_10000 :: "dataframe \<Rightarrow> rat \<Rightarrow> py_error + dataframe" where
  "normalise_grade_to_10000 df grade_total =
     (if grade_total = 0 then Inl ZeroDivisionError
      else arith_column ''Grade'' (\<lambda>x. of_int (rint (fmul x (fdiv 10000 grade_total)))) df)"

text \<open>\<open>df["Grade"].round().astype("Int64")\<close>, as the mock and summative pipelines do.\<close>

definition round_grade :: "dataframe \<Rightarrow> py_error + dataframe" where
  "round_grade df = arith_column ''Grade'' (\<lambda>x. of_int (rint x)) df"

fun arith_columns :: "(string \<times> (rat \<Rightarrow> rat)) list \<Rightarrow> dataframe \<Rightarrow> py_error + dataframe" where
  "arith_columns [] df = Inr df"
| "arith_columns ((c, f) # cs) df = and_then (arith_column c f df) (arith_columns cs)"

definition scale_cols_to_100 :: "dataframe \<Rightarrow> string list \<Rightarrow> py_error + dataframe" where
  "scale_cols_to_100 df cols =
     arith_columns (map (\<lambda>c. (c, \<lambda>x. of_int (rint (fmul x 100))))
                      (filter (\<lambda>c. c \<in> set (columns df)) cols)) df"

definition scale_cols_to_10000 :: "dataframe \<Rightarrow> (string \<times> rat) list \<Rightarrow> py_error + dataframe" where
  "scale_cols_to_10000 df col_to_maxscore =
     (if list_ex (\<lambda>(col, max_score). max_score = 0) col_to_maxscore then Inl ZeroDivisionError
      else arith_columns (map (\<lambda>(col, max_score). (col, \<lambda>x. of_int (rint (fmul x (fdiv 10000 max_score)))))
                            (filter (\<lambda>(col, max_score). col \<in> set (columns df)) col_to_maxscore)) df)"

definition check_required_columns :: "dataframe \<Rightarrow> string list \<Rightarrow> string \<Rightarrow> py_error + unit" where
  "check_required_columns df required table_name =
     (let missing = filter (\<lambda>c. c \<notin> set (columns df)) required in
      if missing \<noteq> [] then Inl (KeyError table_name missing (columns df)) else Inr ())"

text \<open>\<open>df.to_sql(table_name, conn, if_exists="replace", index=False)\<close>\<close>

definition to_sql :: "dataframe \<Rightarrow> sql_table" where
  "to_sql df = \<lparr>tcolumns = columns df, trows = map snd (rows df)\<rparr>"

definition write_table :: "store \<Rightarrow> dataframe \<Rightarrow> string \<Rightarrow> store" where
  "write_table conn df table_name = conn(table_name \<mapsto> to_sql df)"

subsection \<open>The seven pipelines\<close>

definition rename_map_test_1 :: "(string \<times> string) list" where
  "rename_map_test_1 =
     [(''research id'', ''research_id''), (''Started on'', ''Started_on''),
      (''Time taken'', ''Time_taken''), (''Grade/600'', ''Grade''),
      (''Q 1 /100'', ''Q1''), (''Q 2 /100'', ''Q2''), (''Q 3 /100'', ''Q3''),
      (''Q 4 /100'', ''Q4''), (''Q 5 /100'', ''Q5''), (''Q 6 /100'', ''Q6'')]"

definition preprocess_test_1 ::
  "(skey list \<Rightarrow> nat list) \<Rightarrow> (string \<Rightarrow> rat option) \<Rightarrow> filesystem \<Rightarrow> preprocessor
     \<Rightarrow> py_error + dataframe" where
  "preprocess_test_1 argsort num fs self =
     and_then (read_csv fs (file_test_1 self)) (\<lambda>df_raw.
     let df = apply_rename (strip_column_names df_raw) rename_map_test_1 in
     and_then (check_required_columns df [''research_id'', ''Grade''] ''Test_1'') (\<lambda>_.
     and_then (keep_best_attempt argsort df) (\<lambda>df.
     let df = remove_redundant_columns df [''State'', ''Time_taken''];
         df = clean_numeric_columns num df [''Grade'', ''Q1'', ''Q2'', ''Q3'', ''Q4'', ''Q5'', ''Q6'']
     in
     and_then (normalise_grade_to_10000 df 600) (\<lambda>df.
     scale_cols_to_100 df [''Q1'', ''Q2'', ''Q3'', ''Q4'', ''Q5'', ''Q6'']))))"

definition rename_map_test_2 :: "(string \<times> string) list" where
  "rename_map_test_2 =
     [(''research id'', ''research_id''), (''Started on'', ''Started_on''),
      (''Time taken'', ''Time_taken''), (''Grade/700'', ''Grade''),
      (''Q 1 /100'', ''Q1''), (''Q 2 /100'', ''Q2''), (''Q 3 /100'', ''Q3''),
      (''Q 4 /200'', ''Q4''), (''Q 5 /100'', ''Q5''), (''Q 6 /100'', ''Q6'')]"

definition preprocess_test_2 ::
  "(skey list \<Rightarrow> nat list) \<Rightarrow> (string \<Rightarrow> rat option) \<Rightarrow> filesystem \<Rightarrow> preprocessor
     \<Rightarrow> py_error + dataframe" where
  "preprocess_test_2 argsort num fs self =
     and_then (read_csv fs (file_test_2 self)) (\<lambda>df.
     let df = apply_rename (strip_column_names df) rename_map_test_2 in
     and_then (check_required_columns df [''research_id'', ''Grade''] ''Test_2'') (\<lambda>_.
     and_then (keep_best_attempt argsort df) (\<lambda>df.
     let df = remove_redundant_columns df [''State'', ''Time_taken''];
         df = clean_numeric_columns num df [''Grade'', ''Q1'', ''Q2'', ''Q3'', ''Q4'', ''Q5'', ''Q6'']
     in
     and_then (normalise_grade_to_10000 df 700) (\<lambda>df.
     and_then (scale_cols_to_100 df [''Q1'', ''Q2'', ''Q3'', ''Q5'', ''Q6'']) (\<lambda>df.
     scale_cols_to_10000 df [(''Q4'', 200)])))))"

definition rename_map_test_3 :: "(string \<times> string) list" where
  "rename_map_test_3 =
     [(''research id'', ''research_id''), (''Started on'', ''Started_on''),
      (''Time taken'', ''Time_taken''), (''Grade/600'', ''Grade''),
      (''Q 1 /100'', ''Q1''), (''Q 2 /100'', ''Q2''), (''Q 3 /100'', ''Q3''),
      (''Q 4 /100'', ''Q4''), (''Q 5 /100'', ''Q5''), (''Q 6 /100'', ''Q6'')]"

definition preprocess_test_3 ::
  "(skey list \<Rightarrow> nat list) \<Rightarrow> (string \<Rightarrow> rat option) \<Rightarrow> filesystem \<Rightarrow> preprocessor
     \<Rightarrow> py_error + dataframe" where
  "preprocess_test_3 argsort num fs self =
     and_then (read_csv fs (file_test_3 self)) (\<lambda>df.
     let df = apply_rename (strip_column_names df) rename_map_test_3 in
     and_then (check_required_columns df [''research_id'', ''Grade''] ''Test_3'') (\<lambda>_.
     and_then (keep_best_attempt argsort df) (\<lambda>df.
     let df = remove_redundant_columns df [''State'', ''Time_taken''];
         df = clean_numeric_columns num df [''Grade'', ''Q1'', ''Q2'', ''Q3'', ''Q4'', ''Q5'', ''Q6'']
     in
     and_then (normalise_grade_to_10000 df 600) (\<lambda>df.
     scale_cols_to_100 df [''Q1'', ''Q2'', ''Q3'', ''Q4'', ''Q5'', ''Q6'']))))"

definition rename_map_test_4 :: "(string \<times> string) list" where
  "rename_map_test_4 =
     [(''research id'', ''research_id''), (''Started on'', ''Started_on''),
      (''Time taken'', ''Time_taken''), (''Grade/1000'', ''Grade''),
      (''Q 1 /500'', ''Q1''), (''Q 2 /500'', ''Q2'')]"

definition preprocess_test_4 ::
  "(skey list \<Rightarrow> nat list) \<Rightarrow> (string \<Rightarrow> rat option) \<Rightarrow> filesystem \<Rightarrow> preprocessor
     \<Rightarrow> py_error + dataframe" where
  "preprocess_test_4 argsort num fs self =
     and_then (read_csv fs (file_test_4 self)) (\<lambda>df.
     let df = apply_rename (strip_column_names df) rename_map_test_4 in
     and_then (check_required_columns df [''research_id'', ''Grade''] ''Test_4'') (\<lambda>_.
     and_then (keep_best_attempt argsort df) (\<lambda>df.
     let df = remove_redundant_columns df [''State'', ''Time_taken''];
         df = clean_numeric_columns num df [''Grade'', ''Q1'', ''Q2'']
     in
     and_then (normalise_grade_to_10000 df 1000) (\<lambda>df.
     scale_cols_to_10000 df [(''Q1'', 500), (''Q2'', 500)]))))"

definition rename_map_mock_test :: "(string \<times> string) list" where
  "rename_map_mock_test =
     [(''research id'', ''research_id''), (''Started on'', ''Started_on''),
      (''Time taken'', ''Time_taken''), (''Grade/10000'', ''Grade''),
      (''Q 1 /500'', ''Q1''), (''Q 2 /300'', ''Q2''), (''Q 3 /600'', ''Q3''),
      (''Q 4 /700'', ''Q4''), (''Q 5 /500'', ''Q5''), (''Q 6 /400'', ''Q6''),
      (''Q 7 /1000'', ''Q7''), (''Q 8 /2000'', ''Q8''), (''Q 9 /2000'', ''Q9''),
      (''Q 10 /2000'', ''Q10'')]"

definition preprocess_mock_test ::
  "(skey list \<Rightarrow> nat list) \<Rightarrow> (string \<Rightarrow> rat option) \<Rightarrow> filesystem \<Rightarrow> preprocessor
     \<Rightarrow> py_error + dataframe" where
  "preprocess_mock_test argsort num fs self =
     and_then (read_csv fs (file_mock self)) (\<lambda>df.
     let df = apply_rename (strip_column_names df) rename_map_mock_test in
     and_then (check_required_columns df [''research_id'', ''Grade''] ''Mock_Test'') (\<lambda>_.
     and_then (keep_best_attempt argsort df) (\<lambda>df.
     let df = remove_redundant_columns df [''State'', ''Time_taken''];
         df = clean_numeric_columns num df
                [''Grade'', ''Q1'', ''Q2'', ''Q3'', ''Q4'', ''Q5'', ''Q6'', ''Q7'', ''Q8'', ''Q9'', ''Q10'']
     in
     and_then (round_grade df) (\<lambda>df.
     and_then (scale_cols_to_10000 df [(''Q1'', 500), (''Q5'', 500)]) (\<lambda>df.
     and_then (scale_cols_to_10000 df [(''Q8'', 2000), (''Q9'', 2000), (''Q10'', 2000)]) (\<lambda>df.
     scale_cols_to_10000 df
       [(''Q2'', 300), (''Q3'', 600), (''Q4'', 700), (''Q6'', 400), (''Q7'', 1000)]))))))"

text \<open>\<open>df.fillna(0)\<close> on the whole frame.\<close>

definition preprocess_student_rate :: "filesystem \<Rightarrow> preprocessor \<Rightarrow> py_error + dataframe" where
  "preprocess_student_rate fs self =
     and_then (read_csv fs (file_rate self)) (\<lambda>df.
     let df = strip_column_names df in
     Inr (df\<lparr>rows := map (\<lambda>(i, cs). (i, map fillna0 cs)) (rows df)\<rparr>))"

definition rename_map_sum_test :: "(string \<times> string) list" where
  "rename_map_sum_test =
     [(''research id'', ''research_id''), (''Started on'', ''Started_on''),
      (''Time taken'', ''Time_taken''), (''Grade/10000'', ''Grade''),
      (''Q 1 /500'', ''Q1''), (''Q 2 /300'', ''Q2''), (''Q 3 /600'', ''Q3''),
      (''Q 4 /700'', ''Q4''), (''Q 5 /400'', ''Q5''), (''Q 6 /500'', ''Q6''),
      (''Q 7 /1500'', ''Q7''), (''Q 8 /1500'', ''Q8''), (''Q 9 /1500'', ''Q9''),
      (''Q 10 /1000'', ''Q10''), (''Q 11 /400'', ''Q11''), (''Q 12 /500'', ''Q12''),
      (''Q 13 /600'', ''Q13'')]"

definition preprocess_sum_test ::
  "(skey list \<Rightarrow> nat list) \<Rightarrow> (string \<Rightarrow> rat option) \<Rightarrow> filesystem \<Rightarrow> preprocessor
     \<Rightarrow> py_error + dataframe" where
  "preprocess_sum_test argsort num fs self =
     and_then (read_csv fs (file_sum self)) (\<lambda>df.
     let df = apply_rename (strip_column_names df) rename_map_sum_test in
     and_then (check_required_columns df [''research_id'', ''Grade''] ''Sum_Test'') (\<lambda>_.
     and_then (keep_best_attempt argsort df) (\<lambda>df.
     let df = remove_redundant_columns df [''State'', ''Time_taken''];
         df = clean_numeric_columns num df
                [''Grade'', ''Q1'', ''Q2'', ''Q3'', ''Q4'', ''Q5'', ''Q6'', ''Q7'', ''Q8'', ''Q9'',
                 ''Q10'', ''Q11'', ''Q12'', ''Q13'']
     in
     and_then (round_grade df) (\<lambda>df.
     scale_cols_to_10000 df
       [(''Q1'', 500), (''Q2'', 300), (''Q3'', 600), (''Q4'', 700), (''Q5'', 400),
        (''Q6'', 500), (''Q7'', 1500), (''Q8'', 1500), (''Q9'', 1500), (''Q10'', 1000),
        (''Q11'', 400), (''Q12'', 500), (''Q13'', 600)]))))"

subsection \<open>run\<close>

text \<open>
  The seven calls of \<open>write_table\<close>, in the order of \<open>run\<close>: each pipeline's frame (or the
  exception it raised) with the name of the table it is written to.
\<close>

definition run_tables ::
  "(skey list \<Rightarrow> nat list) \<Rightarrow> (string \<Rightarrow> rat option) \<Rightarrow> filesystem \<Rightarrow> preprocessor
     \<Rightarrow> (string \<times> (py_error + dataframe)) list" where
  "run_tables argsort num fs self =
     [(''Test_1'', preprocess_test_1 argsort num fs self),
      (''Test_2'', preprocess_test_2 argsort num fs self),
      (''Test_3'', preprocess_test_3 argsort num fs self),
      (''Test_4'', preprocess_test_4 argsort num fs self),
      (''Mock_Test'', preprocess_mock_test argsort num fs self),
      (''Student_Rate'', preprocess_student_rate fs self),
      (''Sum_Test'', preprocess_sum_test argsort num fs self)]"

text \<open>
  The calls run in order. An exception ends the run where it is raised: the tables written
  before it stay written, and \<open>conn.close()\<close> and the final message are not reached.
\<close>

fun write_all :: "(string \<times> (py_error + dataframe)) list \<Rightarrow> store \<Rightarrow> py_error option \<times> store" where
  "write_all [] conn = (None, conn)"
| "write_all ((table_name, Inl e) # rest) conn = (Some e, conn)"
| "write_all ((table_name, Inr df) # rest) conn = write_all rest (write_table conn df table_name)"

record run_outcome = call_outcome +
  database :: store

definition run ::
  "(skey list \<Rightarrow> nat list) \<Rightarrow> (string \<Rightarrow> rat option) \<Rightarrow> filesystem \<Rightarrow> preprocessor
     \<Rightarrow> store \<Rightarrow> run_outcome" where
  "run argsort num fs self conn =
     (case write_all (run_tables argsort num fs self) conn of
        (Some e, conn') \<Rightarrow>
          \<lparr>raised = Some e, conn_closed = False, stdout = [], database = conn'\<rparr>
      | (None, conn') \<Rightarrow>
          \<lparr>raised = None, conn_closed = True,
           stdout = [''Database written successfully: '' @ db_path self], database = conn'\<rparr>)"

section \<open>studentPerformance.py\<close>

text \<open>
  The two charts are the data handed to the plots: per question column the student's
  score, and the score minus the column's mean. A mean skips missing values; the mean of
  a column with no value is NaN, and so is a difference with a missing operand. Text in a
  question column makes \<open>mean\<close> raise \<open>TypeError\<close>. The subtraction is taken exactly.
\<close>

record perf_outcome = call_outcome +
  absolute_scores :: "(string \<times> cell) list option"
  relative_scores :: "(string \<times> rat option) list option"

definition startswith_Q :: "string \<Rightarrow> bool" where
  "startswith_Q col = (case col of [] \<Rightarrow> False | c # _ \<Rightarrow> c = CHR ''Q'')"

definition numbers :: "cell list \<Rightarrow> rat list" where
  "numbers cs = [x. Num x \<leftarrow> cs]"

definition subtract :: "cell \<Rightarrow> rat option \<Rightarrow> rat option" where
  "subtract a m = (case (a, m) of (Num x, Some y) \<Rightarrow> Some (x - y) | _ \<Rightarrow> None)"

definition student_performance :: "store \<Rightarrow> cell \<Rightarrow> string \<Rightarrow> perf_outcome" where
  "student_performance db student_id test_name =
     (case db test_name of
        None \<Rightarrow>
          \<lparr>raised = Some (DatabaseError test_name), conn_closed = False, stdout = [],
           absolute_scores = None, relative_scores = None\<rparr>
      | Some df_test \<Rightarrow>
          if ''research_id'' \<notin> set (tcolumns df_test) then
            \<lparr>raised = Some (ColumnKeyError ''research_id''), conn_closed = False, stdout = [],
             absolute_scores = None, relative_scores = None\<rparr>
          else
            (case filter (\<lambda>r. student_id \<noteq> NaN \<and> field (tcolumns df_test) r ''research_id'' = student_id)
                    (trows df_test) of
               [] \<Rightarrow>
                 \<lparr>raised = None, conn_closed = True,
                  stdout = [''Student ID not found in this test.''],
                  absolute_scores = None, relative_scores = None\<rparr>
             | r # _ \<Rightarrow>
                 (let question_cols = filter startswith_Q (tcolumns df_test);
                      col = (\<lambda>q. map (\<lambda>row. field (tcolumns df_test) row q) (trows df_test))
                  in
                  if list_ex (\<lambda>q. list_ex is_text (col q)) question_cols then
                    \<lparr>raised = Some TypeError, conn_closed = False, stdout = [],
                     absolute_scores = None, relative_scores = None\<rparr>
                  else
                    \<lparr>raised = None, conn_closed = True, stdout = [],
                     absolute_scores =
                       Some (map (\<lambda>q. (q, field (tcolumns df_test) r q)) question_cols),
                     relative_scores =
                       Some (map (\<lambda>q. (q, subtract (field (tcolumns df_test) r q) (mean (numbers (col q)))))
                               question_cols)\<rparr>)))"

subsection \<open>Reading a run\<close>

text \<open>
  The frames a run writes before its first exception, and that exception. The six graded
  assessments with their file, rename map and pipeline; Student\_Rate has no required
  column.
\<close>

fun written :: "(string \<times> (py_error + dataframe)) list \<Rightarrow> (string \<times> dataframe) list" where
  "written [] = []"
| "written ((table_name, Inl e) # rest) = []"
| "written ((table_name, Inr df) # rest) = (table_name, df) # written rest"

fun first_error :: "(string \<times> (py_error + dataframe)) list \<Rightarrow> py_error option" where
  "first_error [] = None"
| "first_error ((table_name, Inl e) # rest) = Some e"
| "first_error ((table_name, Inr df) # rest) = first_error rest"

definition assessments ::
  "(skey list \<Rightarrow> nat list) \<Rightarrow> (string \<Rightarrow> rat option)
     \<Rightarrow> (string \<times> (preprocessor \<Rightarrow> string) \<times> (string \<times> string) list
          \<times> (filesystem \<Rightarrow> preprocessor \<Rightarrow> py_error + dataframe)) list" where
  "assessments argsort num =
     [(''Test_1'', file_test_1, rename_map_test_1, preprocess_test_1 argsort num),
      (''Test_2'', file_test_2, rename_map_test_2, preprocess_test_2 argsort num),
      (''Test_3'', file_test_3, rename_map_test_3, preprocess_test_3 argsort num),
      (''Test_4'', file_test_4, rename_map_test_4, preprocess_test_4 argsort num),
      (''Mock_Test'', file_mock, rename_map_mock_test, preprocess_mock_test argsort num),
      (''Sum_Test'', file_sum, rename_map_sum_test, preprocess_sum_test argsort num)]"

text \<open>A frame as \<open>read_csv\<close> builds it has one cell per column in every row.\<close>

definition aligned :: "dataframe \<Rightarrow> bool" where
  "aligned df \<longleftrightarrow> (\<forall>r \<in> set (rows df). length (snd r) = length (columns df))"

definition reported :: "under_outcome \<Rightarrow> under_row list" where
  "reported out = (case table out of None \<Rightarrow> [] | Some t \<Rightarrow> t)"

subsection \<open>A small store to run the analysis on\<close>

definition grade_table :: "(string \<times> rat) list \<Rightarrow> sql_table" where
  "grade_table rs =
     \<lparr>tcolumns = [''research_id'', ''Grade''], trows = map (\<lambda>(i, g). [Str i, Num g]) rs\<rparr>"

text \<open>
  The summative mean is 50. S1 (40) has three formative grades above 0, the lowest, 20, in
  both Test\_2 and Test\_1; S3 (30) has two, and a grade of 0 in Test\_4.
\<close>

definition db0 :: store where
  "db0 = map_of
     [(''Sum_Test'', grade_table [(''S1'', 40), (''S2'', 80), (''S3'', 30)]),
      (''Test_1'', grade_table [(''S1'', 20), (''S3'', 10)]),
      (''Test_2'', grade_table [(''S1'', 20), (''S3'', 15)]),
      (''Test_3'', grade_table [(''S1'', 50)]),
      (''Test_4'', grade_table [(''S3'', 0)]),
      (''Mock_Test'', grade_table [])]"


definition sum0 :: "(cell \<times> rat) list" where
  "sum0 = [(Str ''S1'', 40), (Str ''S2'', 80), (Str ''S3'', 30)]"

definition formative0 :: "(cell \<times> rat \<times> string) list" where
  "formative0 =
     [(Str ''S1'', 20, ''Test_1''), (Str ''S3'', 10, ''Test_1''),
      (Str ''S1'', 20, ''Test_2''), (Str ''S3'', 15, ''Test_2''),
      (Str ''S1'', 50, ''Test_3''), (Str ''S3'', 0, ''Test_4'')]"

definition row_S1 :: under_row where
  "row_S1 = \<lparr>research_id = Str ''S1'', Summative_Grade = 40, Lowest_Formative_Grade = Some 20,
              Lowest_Formative_Test = Some ''Test_1'', Attempts = 3\<rparr>"


subsection \<open>A table of question scores to run the comparison on\<close>


definition q_table :: sql_table where
  "q_table = \<lparr>tcolumns = [''research_id'', ''Grade'', ''Q1'', ''Q2''],
              trows = [[Str ''S1'', Num 8000, Num 80, Num 50],
                       [Str ''S2'', Num 6000, Num 60, NaN],
                       [Str ''S3'', Num 4000, Num 10, Num 100]]\<rparr>"

definition db_q :: store where
  "db_q = map_of [(''Test_1'', q_table)]"

subsection \<open>Files to run the pipelines on\<close>

text \<open>
  The numbers the library's parser gives for the texts in these files: the doubles
  nearest to 0.5, 0.8, 9.5 and 10; it gives none for any other text here.
\<close>

definition num0 :: "string \<Rightarrow> rat option" where
  "num0 = map_of
     [(''0.5'', 1 / 2), (''0.8'', 3602879701896397 / 4503599627370496),
      (''9.5'', 19 / 2), (''10.0'', 10)]"

definition self0 :: preprocessor where
  "self0 = \<lparr>db_path = ''cw.db'', file_test_1 = ''t1.csv'', file_test_2 = ''t2.csv'',
            file_test_3 = ''t3.csv'', file_test_4 = ''t4.csv'', file_mock = ''mock.csv'',
            file_rate = ''rate.csv'', file_sum = ''sum.csv''\<rparr>"

text \<open>
  Formative Test 1 with a stray space in a header: S1 sat it twice (480 and 300 of 600),
  S2 once and left question 1 open.
\<close>

definition csv_test_1 :: csv_file where
  "csv_test_1 =
     \<lparr>header = ['' research id'', ''State'', ''Grade/600'', ''Q 1 /100 ''],
      lines = [[Str ''S1'', Str ''Finished'', Num 300, Str ''0.5''],
               [Str ''S1'', Str ''Finished'', Num 480, Str ''0.8''],
               [Str ''S2'', Str ''Finished'', Num (15 / 4), Str ''-'']]\<rparr>"

definition csv_header_only :: "string \<Rightarrow> csv_file" where
  "csv_header_only grade_column = \<lparr>header = [''research id'', grade_column], lines = []\<rparr>"

definition csv_rate :: csv_file where
  "csv_rate = \<lparr>header = [''research id'', ''Rate''], lines = [[Str ''S1'', Num 1], [Str ''S2'', NaN]]\<rparr>"

definition fs_ok :: filesystem where
  "fs_ok = map_of
     [(''t1.csv'', csv_test_1), (''t2.csv'', csv_header_only ''Grade/700''),
      (''t3.csv'', csv_header_only ''Grade/600''), (''t4.csv'', csv_header_only ''Grade/1000''),
      (''mock.csv'', csv_header_only ''Grade/10000''), (''rate.csv'', csv_rate),
      (''sum.csv'', csv_header_only ''Grade/10000'')]"

text \<open>The same files, but the export of Test 2 names its grade column \<open>Grade/600\<close>.\<close>

definition fs_bad :: filesystem where
  "fs_bad = fs_ok(''t2.csv'' \<mapsto> csv_header_only ''Grade/600'')"

definition no_tables :: store where
  "no_tables = (\<lambda>table_name. None)"

text \<open>The frames of the Test 1 pipeline on these files, step by step.\<close>

definition test_1_renamed :: dataframe where
  "test_1_renamed = \<lparr>columns = [''research_id'', ''State'', ''Grade'', ''Q1''],
          rows = [(0, [Str ''S1'', Str ''Finished'', Num 300, Str ''0.5'']),
                  (1, [Str ''S1'', Str ''Finished'', Num 480, Str ''0.8'']),
                  (2, [Str ''S2'', Str ''Finished'', Num (15 / 4), Str ''-''])]\<rparr>"

definition test_1_best :: dataframe where
  "test_1_best = \<lparr>columns = [''research_id'', ''State'', ''Grade'', ''Q1''],
          rows = [(1, [Str ''S1'', Str ''Finished'', Num 480, Str ''0.8'']),
                  (2, [Str ''S2'', Str ''Finished'', Num (15 / 4), Str ''-''])]\<rparr>"

definition test_1_clean :: dataframe where
  "test_1_clean = \<lparr>columns = [''research_id'', ''Grade'', ''Q1''],
          rows = [(1, [Str ''S1'', Num 480, Num (3602879701896397 / 4503599627370496)]),
                  (2, [Str ''S2'', Num (15 / 4), Num 0])]\<rparr>"

definition test_1_graded :: dataframe where
  "test_1_graded = \<lparr>columns = [''research_id'', ''Grade'', ''Q1''],
          rows = [(1, [Str ''S1'', Num 8000, Num (3602879701896397 / 4503599627370496)]),
                  (2, [Str ''S2'', Num 63, Num 0])]\<rparr>"

definition test_1_normalised :: dataframe where
  "test_1_normalised = \<lparr>columns = [''research_id'', ''Grade'', ''Q1''],
          rows = [(1, [Str ''S1'', Num 8000, Num 80]),
                  (2, [Str ''S2'', Num 63, Num 0])]\<rparr>"

text \<open>Frames of the other pipelines on these files.\<close>

definition test_2_bad_raw :: dataframe where
  "test_2_bad_raw = \<lparr>columns = [''research id'', ''Grade/600''], rows = []\<rparr>"

definition empty_grades :: dataframe where
  "empty_grades = \<lparr>columns = [''research_id'', ''Grade''], rows = []\<rparr>"

definition rate_frame :: dataframe where
  "rate_frame = \<lparr>columns = [''research id'', ''Rate''],
                 rows = [(0, [Str ''S1'', Num 1]), (1, [Str ''S2'', Num 0])]\<rparr>"

subsection \<open>Frames for the deduplication and the grade\<close>







section \<open>Properties\<close>

subsection \<open>Sorting with an argsort\<close>





subsection \<open>Double arithmetic\<close>

lemma pow2_powi: "pow2 e = 2 powi e"
  by (simp add: pow2_def power_int_def power_one_over inverse_eq_divide)

lemma pow2_pos: "0 < pow2 e"
  by (simp add: pow2_powi)

lemma pow2_add: "pow2 (a + b) = pow2 a * pow2 b"
  by (simp add: pow2_powi power_int_add)

lemma pow2_nat: "0 \<le> e \<Longrightarrow> pow2 e = 2 ^ nat e"
  by (simp add: pow2_def)

lemma pow2_mono: "a \<le> b \<Longrightarrow> pow2 a \<le> pow2 b"
  by (simp add: pow2_powi power_int_increasing)

lemma pow2_strict_mono: "a < b \<Longrightarrow> pow2 a < pow2 b"
  by (simp add: pow2_powi power_int_strict_increasing)

lemma pow2_unique:
  assumes "pow2 a \<le> x" "x < pow2 (a + 1)" "pow2 b \<le> x" "x < pow2 (b + 1)"
  shows "a = b"
proof (rule ccontr)
  assume "a \<noteq> b"
  then consider "a + 1 \<le> b" | "b + 1 \<le> a" by linarith
  then show False
  proof cases
    case 1
    then have "pow2 (a + 1) \<le> pow2 b" by (rule pow2_mono)
    with assms show False by linarith
  next
    case 2
    then have "pow2 (b + 1) \<le> pow2 a" by (rule pow2_mono)
    with assms show False by linarith
  qed
qed

lemma bitlen_pow2_bounds:
  assumes "0 < p"
  shows "pow2 (bitlen p - 1) \<le> of_int p" "(of_int p :: rat) < pow2 (bitlen p)"
proof -
  from bitlen_bounds[OF assms] have b: "2 ^ nat (bitlen p - 1) \<le> p" "p < 2 ^ nat (bitlen p)"
    by auto
  have pos: "1 \<le> bitlen p"
    using assms by (simp add: bitlen_alt_def)
  have "(of_int (2 ^ nat (bitlen p - 1)) :: rat) \<le> of_int p"
    using b(1) by (simp only: of_int_le_iff)
  then show "pow2 (bitlen p - 1) \<le> of_int p"
    using pos by (simp add: pow2_nat)
  have "(of_int p :: rat) < of_int (2 ^ nat (bitlen p))"
    using b(2) by (simp only: of_int_less_iff)
  then show "(of_int p :: rat) < pow2 (bitlen p)"
    using pos by (simp add: pow2_nat)
qed

lemma ilog2_bounds:
  assumes "0 < x"
  shows "pow2 (ilog2 x) \<le> x \<and> x < pow2 (ilog2 x + 1)"
proof -
  obtain p q where pq: "quotient_of x = (p, q)"
    by (cases "quotient_of x")
  then have q: "0 < q" and x: "x = of_int p / of_int q"
    by (simp_all add: quotient_of_denom_pos quotient_of_div)
  have p: "0 < p"
    using assms q unfolding x by (simp add: zero_less_divide_iff)
  define d where "d = bitlen p - bitlen q"
  note bp = bitlen_pow2_bounds[OF p] and bq = bitlen_pow2_bounds[OF q]
  have qpos: "(0::rat) < of_int q" using q by simp
  have "x < pow2 (bitlen p) / pow2 (bitlen q - 1)"
    unfolding x using bp(2) bq(1) p pow2_pos[of "bitlen q - 1"]
    by (intro frac_less) auto
  also have "\<dots> = pow2 (d + 1)"
  proof -
    have "pow2 (bitlen p) = pow2 (d + 1) * pow2 (bitlen q - 1)"
      by (simp add: d_def flip: pow2_add)
    then show ?thesis
      using pow2_pos[of "bitlen q - 1"] by simp
  qed
  finally have up: "x < pow2 (d + 1)" .
  have "pow2 (d - 1) = pow2 (bitlen p - 1) / pow2 (bitlen q)"
  proof -
    have "pow2 (bitlen p - 1) = pow2 (d - 1) * pow2 (bitlen q)"
      by (simp add: d_def flip: pow2_add)
    then show ?thesis
      using pow2_pos[of "bitlen q"] by simp
  qed
  also have "\<dots> < x"
    unfolding x using bp(1) bq(2) qpos pow2_pos[of "bitlen p - 1"]
    by (intro frac_less2) (auto intro: less_imp_le)
  finally have lo: "pow2 (d - 1) < x" .
  have "ilog2 x = (if pow2 d \<le> x then d else d - 1)"
    by (simp add: ilog2_def pq d_def Let_def)
  then show ?thesis
    using up lo by (auto simp: not_le intro: less_imp_le)
qed

lemma ilog2_eqI: "pow2 e \<le> x \<Longrightarrow> x < pow2 (e + 1) \<Longrightarrow> ilog2 x = e"
proof -
  assume a: "pow2 e \<le> x" "x < pow2 (e + 1)"
  then have "0 < x" using pow2_pos[of e] by linarith
  from ilog2_bounds[OF this] a show ?thesis
    by (intro pow2_unique[of _ x]) auto
qed

lemma rint_error: "\<bar>of_int (rint x) - x\<bar> \<le> 1 / 2"
proof -
  have "of_int \<lfloor>x\<rfloor> \<le> x" "x < of_int \<lfloor>x\<rfloor> + 1" by linarith+
  then show ?thesis
    by (auto simp: rint_def Let_def)
qed


lemma rint_eqI: "of_int n - 1 / 2 < x \<Longrightarrow> x < of_int n + 1 / 2 \<Longrightarrow> rint x = n"
proof -
  assume a: "of_int n - 1 / 2 < x" "x < of_int n + 1 / 2"
  have "\<bar>of_int (rint x) - x\<bar> \<le> 1 / 2" by (rule rint_error)
  with a have "\<bar>(of_int (rint x) :: rat) - of_int n\<bar> < 1" by linarith
  then have "\<bar>rint x - n\<bar> < 1"
    by (metis of_int_abs of_int_diff of_int_less_1_iff)
  then show ?thesis by linarith
qed

lemma rint_of_int: "rint (of_int n) = n"
  by (rule rint_eqI) simp_all

lemma fl_eq:
  assumes "pow2 (e + 52) \<le> \<bar>x\<bar>" "\<bar>x\<bar> < pow2 (e + 53)"
  shows "fl x = of_int (rint (x / pow2 e)) * pow2 e"
proof -
  have "ilog2 \<bar>x\<bar> = e + 52"
    using assms by (intro ilog2_eqI) (simp_all add: add.commute add.left_commute)
  moreover have "x \<noteq> 0"
    using assms(1) pow2_pos[of "e + 52"] by auto
  ultimately show ?thesis
    by (simp add: fl_def Let_def)
qed





lemma fl_eval:
  assumes "pow2 (e + 52) \<le> \<bar>x\<bar>" "\<bar>x\<bar> < pow2 (e + 53)" "rint (x / pow2 e) = n"
  shows "fl x = of_int n * pow2 e"
  using fl_eq[OF assms(1,2)] assms(3) by simp

subsection \<open>The Test 1 pipeline on the example files\<close>

lemma test_1_read: "read_csv fs_ok (file_test_1 self0) = Inr \<lparr>columns = header csv_test_1, rows = zip [0..<3] (lines csv_test_1)\<rparr>"
  by code_simp

lemma test_1_rename: "apply_rename (strip_column_names \<lparr>columns = header csv_test_1, rows = zip [0..<3] (lines csv_test_1)\<rparr>) rename_map_test_1 = test_1_renamed"
  by code_simp

lemma test_1_check: "check_required_columns test_1_renamed [''research_id'', ''Grade''] ''Test_1'' = Inr ()"
  by code_simp

lemma test_1_keep_best: "keep_best_attempt insertion_argsort test_1_renamed = Inr test_1_best"
  by code_simp

lemma test_1_cleaning: "clean_numeric_columns num0 (remove_redundant_columns test_1_best [''State'', ''Time_taken''])
             [''Grade'', ''Q1'', ''Q2'', ''Q3'', ''Q4'', ''Q5'', ''Q6''] = test_1_clean"
  by code_simp


lemma fdiv_10000_600: "fdiv 10000 600 = 4691249611844267 / 281474976710656"
proof -
  have "rint (10000 / 600 / pow2 (- 48)) = 4691249611844267"
    by (rule rint_eqI) (simp_all add: pow2_def)
  then have "fl (10000 / 600) = of_int 4691249611844267 * pow2 (- 48)"
    by (intro fl_eval) (simp_all add: pow2_def)
  then show ?thesis
    by (simp add: fdiv_def pow2_def)
qed

lemma grade_15_4: "rint (fmul (15 / 4) (fdiv 10000 600)) = 63"
proof -
  have "rint (15 / 4 * (4691249611844267 / 281474976710656) / pow2 (- 47)) = 8796093022208001"
    by (rule rint_eqI) (simp_all add: pow2_def)
  then have "fl (15 / 4 * (4691249611844267 / 281474976710656)) = of_int 8796093022208001 * pow2 (- 47)"
    by (intro fl_eval) (simp_all add: pow2_def)
  then have "fmul (15 / 4) (fdiv 10000 600) = 8796093022208001 / 140737488355328"
    by (simp add: fmul_def fdiv_10000_600 pow2_def)
  then show ?thesis
    by (simp add: rint_eqI)
qed


lemma grade_480: "rint (fmul 480 (fdiv 10000 600)) = 8000"
proof -
  have "rint (480 * (4691249611844267 / 281474976710656) / pow2 (- 40)) = 8796093022208001"
    by (rule rint_eqI) (simp_all add: pow2_def)
  then have "fl (480 * (4691249611844267 / 281474976710656)) = of_int 8796093022208001 * pow2 (- 40)"
    by (intro fl_eval) (simp_all add: pow2_def)
  then have "fmul 480 (fdiv 10000 600) = 8796093022208001 / 1099511627776"
    by (simp add: fmul_def fdiv_10000_600 pow2_def)
  then show ?thesis
    by (simp add: rint_eqI)
qed

lemma q1_08: "rint (fmul (3602879701896397 / 4503599627370496) 100) = 80"
proof -
  have "3602879701896397 / 4503599627370496 * 100 / pow2 (- 46) = (of_int 5629499534213120 + 5 / 16 :: rat)"
    by (simp add: pow2_def)
  then have "rint (3602879701896397 / 4503599627370496 * 100 / pow2 (- 46)) = 5629499534213120"
    by (simp add: rint_eqI)
  then have "fl (3602879701896397 / 4503599627370496 * 100) = of_int 5629499534213120 * pow2 (- 46)"
    by (intro fl_eval) (simp_all add: pow2_def)
  then have "fmul (3602879701896397 / 4503599627370496) 100 = 80"
    by (simp add: fmul_def pow2_def)
  then show ?thesis
    using rint_of_int[of 80] by simp
qed

lemma q1_0: "rint (fmul 0 100) = 0"
  using rint_of_int[of 0] by (simp add: fmul_def fl_def)

lemma test_1_grade: "normalise_grade_to_10000 test_1_clean 600 = Inr test_1_graded"
  by (simp add: normalise_grade_to_10000_def arith_column_def column_values_def cell_at_def field_def
      update_column_def test_1_clean_def test_1_graded_def grade_480 grade_15_4)

lemma test_1_scale: "scale_cols_to_100 test_1_graded [''Q1'', ''Q2'', ''Q3'', ''Q4'', ''Q5'', ''Q6''] = Inr test_1_normalised"
  by (simp add: scale_cols_to_100_def and_then_def arith_column_def column_values_def cell_at_def field_def
      update_column_def test_1_graded_def test_1_normalised_def q1_08 q1_0)

lemma preprocess_test_1_example: "preprocess_test_1 insertion_argsort num0 fs_ok self0 = Inr test_1_normalised"
  unfolding preprocess_test_1_def test_1_read and_then_def sum.case Let_def test_1_rename test_1_check test_1_keep_best test_1_cleaning test_1_grade test_1_scale
  by (rule refl)

subsection \<open>Sorting rows and keeping first occurrences\<close>













subsection \<open>keep\_best\_attempt\<close>

lemma cell_at_rows_update [simp]: "cell_at (df\<lparr>rows := rs\<rparr>) c = cell_at df c"
  by (simp add: cell_at_def fun_eq_iff)










subsection \<open>Cells of an updated column\<close>

lemma zip_map_zip:
  "zip cols (map (\<lambda>(n, v). h n v) (zip cols cs)) = map (\<lambda>(n, v). (n, h n v)) (zip cols cs)"
proof (induction cols arbitrary: cs)
  case Nil
  then show ?case by simp
next
  case (Cons c cols)
  then show ?case by (cases cs) simp_all
qed

lemma map_of_map_values:
  "map_of (map (\<lambda>(n, v). (n, h n v)) xs) c = map_option (h c) (map_of xs c)"
  by (induction xs) auto

lemma field_map_zip:
  "field cols (map (\<lambda>(n, v). h n v) (zip cols cs)) c
     = (case map_of (zip cols cs) c of None \<Rightarrow> NaN | Some v \<Rightarrow> h c v)"
  by (simp add: field_def zip_map_zip map_of_map_values split: option.splits)

lemma aligned_field:
  assumes "length cs = length cols" "c \<in> set cols"
  shows "map_of (zip cols cs) c = Some (field cols cs c)"
proof -
  have "map_of (zip cols cs) c \<noteq> None"
    using assms by (simp add: map_of_zip_is_None)
  then show ?thesis
    by (auto simp: field_def)
qed

lemma update_column_columns [simp]: "columns (update_column c f df) = columns df"
  by (simp add: update_column_def)

lemma update_column_length [simp]: "length (rows (update_column c f df)) = length (rows df)"
  by (simp add: update_column_def)

lemma update_column_aligned: "aligned df \<Longrightarrow> aligned (update_column c f df)"
  by (auto simp: aligned_def update_column_def)

lemma update_column_cell:
  assumes "aligned df" "c' \<in> set (columns df)" "i < length (rows df)"
  shows "cell_at (update_column c f df) c' (rows (update_column c f df) ! i)
           = (if c' = c then f (cell_at df c' (rows df ! i)) else cell_at df c' (rows df ! i))"
proof -
  obtain j cs where r: "rows df ! i = (j, cs)"
    by (cases "rows df ! i")
  have "(j, cs) \<in> set (rows df)"
    using assms(3) r by (metis nth_mem)
  then have len: "length cs = length (columns df)"
    using assms(1) by (auto simp: aligned_def)
  have "rows (update_column c f df) ! i
          = (j, map (\<lambda>(n, v). if n = c then f v else v) (zip (columns df) cs))"
    using assms(3) r by (simp add: update_column_def)
  then show ?thesis
    using aligned_field[OF len assms(2)] r
    by (simp add: cell_at_def field_map_zip)
qed


lemma clean_fold_cell:
  assumes "aligned d" "col \<in> set (columns d)" "i < length (rows d)"
    and idem: "\<And>v. F (F v) = F v"
  defines "step \<equiv> \<lambda>c d. if c \<in> set (columns d) then update_column c F d else d"
  shows "columns (fold step cols d) = columns d \<and> length (rows (fold step cols d)) = length (rows d)
       \<and> cell_at (fold step cols d) col (rows (fold step cols d) ! i)
           = (if col \<in> set cols then F (cell_at d col (rows d ! i)) else cell_at d col (rows d ! i))"
  using assms(1-3)
proof (induction cols arbitrary: d)
  case Nil
  then show ?case by simp
next
  case (Cons c cols)
  let ?d = "step c d"
  have a: "aligned ?d" "columns ?d = columns d" "length (rows ?d) = length (rows d)"
    using Cons.prems by (simp_all add: step_def update_column_aligned)
  have cell: "cell_at ?d col (rows ?d ! i)
               = (if col = c then F (cell_at d col (rows d ! i)) else cell_at d col (rows d ! i))"
    using Cons.prems by (auto simp: step_def update_column_cell)
  from Cons.IH[OF a(1)] Cons.prems a(2,3)
  have "columns (fold step cols ?d) = columns ?d \<and> length (rows (fold step cols ?d)) = length (rows ?d)
       \<and> cell_at (fold step cols ?d) col (rows (fold step cols ?d) ! i)
           = (if col \<in> set cols then F (cell_at ?d col (rows ?d ! i)) else cell_at ?d col (rows ?d ! i))"
    by simp
  then show ?case
    using a(2,3) cell idem by auto
qed

lemma replace_dash_cell:
  assumes "aligned df" "col \<in> set (columns df)" "i < length (rows df)"
  defines "d \<equiv> df\<lparr>rows := map (\<lambda>(i, cs). (i, map replace_dash cs)) (rows df)\<rparr>"
  shows "aligned d" "columns d = columns df" "length (rows d) = length (rows df)"
    "cell_at d col (rows d ! i) = replace_dash (cell_at df col (rows df ! i))"
proof -
  show "aligned d" "columns d = columns df" "length (rows d) = length (rows df)"
    using assms(1) by (auto simp: d_def aligned_def)
  obtain j cs where r: "rows df ! i = (j, cs)"
    by (cases "rows df ! i")
  have "(j, cs) \<in> set (rows df)"
    using assms(3) r by (metis nth_mem)
  then have len: "length cs = length (columns df)"
    using assms(1) by (auto simp: aligned_def)
  have "map snd (zip (columns df) cs) = cs"
    using len by (simp add: map_snd_zip)
  then have "map replace_dash cs = map replace_dash (map snd (zip (columns df) cs))"
    by simp
  also have "\<dots> = map (\<lambda>(n, v). replace_dash v) (zip (columns df) cs)"
    by (simp only: map_map comp_def case_prod_unfold)
  finally have "map replace_dash cs = map (\<lambda>(n, v). replace_dash v) (zip (columns df) cs)" .
  then show "cell_at d col (rows d ! i) = replace_dash (cell_at df col (rows df ! i))"
    using assms(3) r aligned_field[OF len assms(2)]
    by (simp add: d_def cell_at_def field_map_zip)
qed

text \<open>
  Claim C5. \<open>clean_numeric_columns\<close> returns a frame for every frame (it has no exception
  to raise), with the same columns and rows. In a listed column of the frame every cell
  comes out a number: 0 for the placeholder \<open>"-"\<close>, for a missing value and for any text
  the parser gives no number for; a number stays, and numeric text becomes its number.
\<close>

theorem coercion_to_zero:
  assumes "aligned df" and "col \<in> set cols" and "col \<in> set (columns df)" and "i < length (rows df)"
    and "v = cell_at df col (rows df ! i)"
    and "df' = clean_numeric_columns num df cols"
    and "v' = cell_at df' col (rows df' ! i)"
  shows "columns df' = columns df \<and> length (rows df') = length (rows df)
       \<and> is_number v'
       \<and> (v = Str ''-'' \<or> v = NaN \<or> (\<exists>s. v = Str s \<and> num s = None) \<longrightarrow> v' = Num 0)
       \<and> (\<forall>x. v = Num x \<or> (\<exists>s. v = Str s \<and> s \<noteq> ''-'' \<and> num s = Some x) \<longrightarrow> v' = Num x)"
proof -
  define d where "d = df\<lparr>rows := map (\<lambda>(i, cs). (i, map replace_dash cs)) (rows df)\<rparr>"
  note rd = replace_dash_cell[OF assms(1,3,4), folded d_def]
  have idem: "fillna0 (to_numeric num (fillna0 (to_numeric num c))) = fillna0 (to_numeric num c)" for c
    by (cases c) (auto split: option.splits)
  have "i < length (rows d)" "col \<in> set (columns d)"
    using rd assms(3,4) by simp_all
  from clean_fold_cell[OF rd(1) this(2,1), of "\<lambda>v. fillna0 (to_numeric num v)" cols, OF idem]
  have "columns df' = columns df" "length (rows df') = length (rows df)"
    and v': "v' = fillna0 (to_numeric num (replace_dash v))"
    using assms(2,5,6,7) rd by (simp_all add: clean_numeric_columns_def d_def[symmetric])
  moreover have "is_number (fillna0 (to_numeric num (replace_dash v)))"
    by (cases v) (auto split: option.splits)
  moreover have "v = Str ''-'' \<or> v = NaN \<or> (\<exists>s. v = Str s \<and> num s = None)
                   \<longrightarrow> fillna0 (to_numeric num (replace_dash v)) = Num 0"
    by auto
  moreover have "\<forall>x. v = Num x \<or> (\<exists>s. v = Str s \<and> s \<noteq> ''-'' \<and> num s = Some x)
                   \<longrightarrow> fillna0 (to_numeric num (replace_dash v)) = Num x"
    by auto
  ultimately show ?thesis
    by simp
qed

subsection \<open>The normalised grade\<close>




subsection \<open>Underperformance detection\<close>

lemma merge_left_unique:
  assumes "distinct (map fst r)"
  shows "merge_left l r = map (\<lambda>(k, a). (k, a, map_of r k)) l"
proof -
  have one: "filter (\<lambda>m. fst m = k) r = (case map_of r k of None \<Rightarrow> [] | Some v \<Rightarrow> [(k, v)])" for k
    using assms
  proof (induction r)
    case Nil
    then show ?case by simp
  next
    case (Cons m r)
    then show ?case
      by (cases m) (auto split: option.splits simp: filter_empty_conv image_iff dest: map_of_SomeD)
  qed
  show ?thesis
    unfolding merge_left_def
    by (induction l) (auto simp: one split: option.splits)
qed

lemma groupby_first_keys: "fst ` set (groupby_first xs) = fst ` set xs"
  by (induction xs rule: groupby_first.induct) force+

lemma groupby_first_distinct: "distinct (map fst (groupby_first xs))"
proof (induction xs rule: groupby_first.induct)
  case 1
  then show ?case by simp
next
  case (2 k v rs)
  have "k \<notin> fst ` set (groupby_first (filter (\<lambda>r. fst r \<noteq> k) rs))"
    by (simp add: groupby_first_keys) auto
  with 2 show ?case by simp
qed

lemma map_of_filter_neq: "k' \<noteq> k \<Longrightarrow> map_of (filter (\<lambda>r. fst r \<noteq> k) rs) k' = map_of rs k'"
  by (induction rs) auto

lemma groupby_first_map_of: "map_of (groupby_first xs) k = map_of xs k"
proof (induction xs rule: groupby_first.induct)
  case 1
  then show ?case by simp
next
  case (2 k' v rs)
  then show ?case by (simp add: map_of_filter_neq)
qed

lemma map_of_sorted_least:
  assumes "sorted (map K xs)" "map_of xs k = Some v" "(k, v') \<in> set xs"
  shows "K (k, v) \<le> K (k, v')"
  using assms
proof (induction xs)
  case Nil
  then show ?case by simp
next
  case (Cons x xs)
  then show ?case
    by (cases x) (auto split: if_splits)
qed


lemma map_of_graph: "map_of (map (\<lambda>k. (k, h k)) ks) k = (if k \<in> set ks then Some (h k) else None)"
  by (induction ks) auto

lemma df_attempts_distinct: "distinct (map fst (df_attempts f))"
  by (simp add: df_attempts_def comp_def)

lemma df_attempts_lookup:
  "(case map_of (df_attempts f) k of None \<Rightarrow> 0 | Some n \<Rightarrow> n)
     = length (filter (\<lambda>(i, g, t). i = k \<and> g > 0) f)"
proof -
  have cnt: "filter (\<lambda>r. fst r = k) (df_attended f) = filter (\<lambda>(i, g, t). i = k \<and> g > 0) f"
    unfolding df_attended_def by (induction f) auto
  have none: "k \<notin> fst ` set (df_attended f) \<Longrightarrow> filter (\<lambda>r. fst r = k) (df_attended f) = []"
    by (auto simp: filter_empty_conv)
  show ?thesis
    unfolding df_attempts_def map_of_graph
    using none cnt by (auto simp del: split_paired_All)
qed

lemma df_low_distinct: "distinct (map fst (df_low f))"
  by (simp add: df_low_def groupby_first_distinct)

lemma df_result_eq:
  "df_result qs s f =
     filter (\<lambda>r. Attempts r \<ge> 3)
       (map (\<lambda>(k, g).
               \<lparr>research_id = k, Summative_Grade = g,
                Lowest_Formative_Grade = map_option fst (map_of (df_low f) k),
                Lowest_Formative_Test = map_option snd (map_of (df_low f) k),
                Attempts = length (filter (\<lambda>(i, g, t). i = k \<and> g > 0) f)\<rparr>)
          (df_under qs s))"
  unfolding df_result_def
  by (simp add: merge_left_unique df_attempts_distinct df_low_distinct comp_def case_prod_unfold
      df_attempts_lookup[unfolded case_prod_unfold])


lemma reported_eq:
  "load_frames db = Inr (s, f) \<Longrightarrow> reported (find_underperforming_students qs db) = df_result qs s f"
  by (simp add: reported_def find_underperforming_students_def Let_def)



lemma map_of_sorted_first:
  assumes "sorted (map K xs)" "(k, v0) \<in> set xs"
  shows "\<exists>v. map_of xs k = Some v \<and> (k, v) \<in> set xs \<and> (\<forall>v'. (k, v') \<in> set xs \<longrightarrow> K (k, v) \<le> K (k, v'))"
proof -
  have "k \<in> fst ` set xs"
    using assms(2) by (rule image_eqI[rotated]) simp
  then obtain v where v: "map_of xs k = Some v"
    by (cases "map_of xs k") (simp_all add: map_of_eq_None_iff)
  then have "(k, v) \<in> set xs"
    by (rule map_of_SomeD)
  with v assms(1) show ?thesis
    by (blast intro: map_of_sorted_least)
qed

lemma lex_triple_le:
  fixes a :: skey and g g' :: rat and t t' :: string
  assumes "(a, g, t) \<le> (a, g', t')"
  shows "g < g' \<or> (g = g' \<and> t \<le> t')"
  using assms unfolding less_eq_prod_def by auto

lemma df_low_lookup:
  assumes "(k, g0, t0) \<in> set f" "g0 > 0"
  shows "\<exists>g t. map_of (df_low f) k = Some (g, t) \<and> (k, g, t) \<in> set f \<and> g > 0
           \<and> (\<forall>g' t'. (k, g', t') \<in> set f \<and> g' > 0 \<longrightarrow> g < g' \<or> (g = g' \<and> t \<le> t'))"
proof -
  define K where "K = (\<lambda>(i, g, t). (cell_key i, g :: rat, t :: string))"
  define L where "L = sort_key K (df_attended f)"
  have setL: "set L = {(i, g, t). (i, g, t) \<in> set f \<and> g > 0}"
    by (auto simp: L_def df_attended_def)
  have "sorted (map K L)"
    by (simp add: L_def)
  moreover have "(k, g0, t0) \<in> set L"
    using assms by (simp add: setL)
  ultimately obtain v where v: "map_of L k = Some v" "(k, v) \<in> set L"
    "\<forall>v'. (k, v') \<in> set L \<longrightarrow> K (k, v) \<le> K (k, v')"
    using map_of_sorted_first[of K L k "(g0, t0)"] by blast
  obtain g t where gt: "v = (g, t)" by (cases v)
  have least: "g < g' \<or> (g = g' \<and> t \<le> t')" if "(k, g', t') \<in> set f" "g' > 0" for g' t'
  proof -
    have "(k, g', t') \<in> set L"
      using that by (simp add: setL)
    with v(3) have "K (k, g, t) \<le> K (k, g', t')"
      by (simp add: gt)
    then show ?thesis
      unfolding K_def by (simp only: prod.case) (rule lex_triple_le)
  qed
  have "map_of (df_low f) k = Some (g, t)"
    using v(1) by (simp add: df_low_def groupby_first_map_of L_def K_def gt)
  moreover have "(k, g, t) \<in> set f \<and> g > 0"
    using v(2) by (simp add: setL gt)
  ultimately show ?thesis
    using least by blast
qed

text \<open>
  Claim C4. For a student with a formative row of grade above 0, the weakest formative
  result is a row of theirs with grade above 0 that no other such row undercuts: every
  other one has a higher grade, or the same grade and a test name that is not earlier in
  code point order. Each reported row of that student carries that grade and test.
\<close>

theorem weakest_formative_min:
  assumes "load_frames db = Inr (s, f)" and "(k, g0, t0) \<in> set f" and "g0 > 0"
  shows "\<exists>g t. map_of (df_low f) k = Some (g, t) \<and> (k, g, t) \<in> set f \<and> g > 0
           \<and> (\<forall>g' t'. (k, g', t') \<in> set f \<and> g' > 0 \<longrightarrow> g < g' \<or> (g = g' \<and> t \<le> t'))
           \<and> (\<forall>r \<in> set (reported (find_underperforming_students qs db)).
                 research_id r = k \<longrightarrow>
                 Lowest_Formative_Grade r = Some g \<and> Lowest_Formative_Test r = Some t)"
proof -
  from df_low_lookup[OF assms(2,3)] obtain g t where
    *: "map_of (df_low f) k = Some (g, t)" "(k, g, t) \<in> set f" "g > 0"
       "\<forall>g' t'. (k, g', t') \<in> set f \<and> g' > 0 \<longrightarrow> g < g' \<or> (g = g' \<and> t \<le> t')"
    by blast
  have "Lowest_Formative_Grade r = Some g \<and> Lowest_Formative_Test r = Some t"
    if "r \<in> set (df_result qs s f)" "research_id r = k" for r
    using that *(1) unfolding df_result_eq by auto
  with * show ?thesis
    using assms(1) by (auto simp: reported_eq)
qed

text \<open>
  Claim C10. Every reported row has a lowest formative grade, which is above 0, and a
  lowest formative test: three attempts leave at least one attended row to take them from.
\<close>

theorem reported_lowest_positive:
  "\<forall>r \<in> set (reported (find_underperforming_students qs db)).
     \<exists>g t. Lowest_Formative_Grade r = Some g \<and> 0 < g \<and> Lowest_Formative_Test r = Some t"
proof (cases "load_frames db")
  case (Inl e)
  then show ?thesis
    by (simp add: reported_def find_underperforming_students_def)
next
  case (Inr p)
  obtain s f where p: "p = (s, f)" by (cases p)
  have "\<exists>g t. Lowest_Formative_Grade r = Some g \<and> 0 < g \<and> Lowest_Formative_Test r = Some t"
    if r: "r \<in> set (df_result qs s f)" for r
  proof -
    let ?k = "research_id r"
    from r have "3 \<le> length (filter (\<lambda>(i, g, t). i = ?k \<and> g > 0) f)"
      and low: "Lowest_Formative_Grade r = map_option fst (map_of (df_low f) ?k)"
               "Lowest_Formative_Test r = map_option snd (map_of (df_low f) ?k)"
      unfolding df_result_eq by auto
    then have "filter (\<lambda>(i, g, t). i = ?k \<and> g > 0) f \<noteq> []"
      by auto
    then obtain g0 t0 where "(?k, g0, t0) \<in> set f" "g0 > 0"
      by (auto simp: filter_empty_conv)
    from df_low_lookup[OF this] low show ?thesis
      by auto
  qed
  with Inr p show ?thesis
    by (simp add: reported_eq)
qed

subsection \<open>The analysis on the small store\<close>

lemma load_frames_db0: "load_frames db0 = Inr (sum0, formative0)"
  by code_simp

lemma reported_db0: "reported (find_underperforming_students insertion_argsort db0) = [row_S1]"
  by code_simp



theorem weakest_formative_min_witness:
  "load_frames db0 = Inr (sum0, formative0) \<and> (Str ''S1'', 20, ''Test_2'') \<in> set formative0 \<and> (0::rat) < 20
   \<and> map_of (df_low formative0) (Str ''S1'') = Some (20, ''Test_1'')
   \<and> row_S1 \<in> set (reported (find_underperforming_students insertion_argsort db0))
   \<and> Lowest_Formative_Grade row_S1 = Some 20 \<and> Lowest_Formative_Test row_S1 = Some ''Test_1''"
proof -
  have mem: "(Str ''S1'', 20, ''Test_2'') \<in> set formative0"
    by (simp add: formative0_def)
  have low: "map_of (df_low formative0) (Str ''S1'') = Some (20, ''Test_1'')"
    by code_simp
  have r: "row_S1 \<in> set (reported (find_underperforming_students insertion_argsort db0))"
    by (simp add: reported_db0)
  have k: "research_id row_S1 = Str ''S1''"
    by (simp add: row_S1_def)
  from weakest_formative_min[OF load_frames_db0 mem, of insertion_argsort] low r k
  have "Lowest_Formative_Grade row_S1 = Some 20 \<and> Lowest_Formative_Test row_S1 = Some ''Test_1''"
    by auto
  with load_frames_db0 mem low r show ?thesis
    by simp
qed

theorem reported_lowest_positive_witness:
  "row_S1 \<in> set (reported (find_underperforming_students insertion_argsort db0))
   \<and> (\<exists>g t. Lowest_Formative_Grade row_S1 = Some g \<and> 0 < g \<and> Lowest_Formative_Test row_S1 = Some t)"
proof -
  have mem: "row_S1 \<in> set (reported (find_underperforming_students insertion_argsort db0))"
    by (simp add: reported_db0)
  from reported_lowest_positive[of insertion_argsort db0, rule_format, OF mem] mem
  show ?thesis by blast
qed

subsection \<open>Single-student comparison\<close>







subsection \<open>The run and the store\<close>

lemma write_all_eq:
  "write_all ts conn = (first_error ts, fold (\<lambda>(n, df) c. write_table c df n) (written ts) conn)"
  by (induction ts conn rule: write_all.induct) simp_all

lemma fold_write_lookup:
  "fold (\<lambda>(n, df) c. write_table c df n) ws conn n =
     (case map_of (rev ws) n of None \<Rightarrow> conn n | Some df \<Rightarrow> Some (to_sql df))"
proof (induction ws arbitrary: conn)
  case Nil
  then show ?case by simp
next
  case (Cons w ws)
  obtain m d where w: "w = (m, d)" by (cases w)
  have "fold (\<lambda>(n, df) c. write_table c df n) (w # ws) conn n =
        (case map_of (rev ws) n of None \<Rightarrow> write_table conn d m n | Some df \<Rightarrow> Some (to_sql df))"
    by (simp add: Cons.IH w)
  also have "\<dots> = (case map_of (rev (w # ws)) n of None \<Rightarrow> conn n | Some df \<Rightarrow> Some (to_sql df))"
    by (simp add: w write_table_def map_add_def split: option.splits)
  finally show ?case .
qed

lemma fold_write_idem:
  "fold (\<lambda>(n, df) c. write_table c df n) ws (fold (\<lambda>(n, df) c. write_table c df n) ws conn)
     = fold (\<lambda>(n, df) c. write_table c df n) ws conn"
  by (rule ext) (simp add: fold_write_lookup split: option.splits)

lemma run_database:
  "database (run qs num fs self conn) =
     fold (\<lambda>(n, df) c. write_table c df n) (written (run_tables qs num fs self)) conn"
  by (simp add: run_def write_all_eq split: option.splits)

lemma run_raised: "raised (run qs num fs self conn) = first_error (run_tables qs num fs self)"
  by (simp add: run_def write_all_eq split: option.splits)

lemma run_conn_closed: "conn_closed (run qs num fs self conn) \<longleftrightarrow> first_error (run_tables qs num fs self) = None"
  by (simp add: run_def write_all_eq split: option.splits)

text \<open>
  Claim C7. A second run on the same files, started on the store the first run left,
  leaves the same store and ends the same way. A write puts the frame under its table
  name, whatever was there before, and changes no other table.
\<close>

theorem rerun_idempotent:
  "database (run qs num fs self (database (run qs num fs self conn))) = database (run qs num fs self conn)
   \<and> raised (run qs num fs self (database (run qs num fs self conn))) = raised (run qs num fs self conn)
   \<and> write_table conn df table_name table_name = Some (to_sql df)
   \<and> (\<forall>other. other \<noteq> table_name \<longrightarrow> write_table conn df table_name other = conn other)"
proof (intro conjI)
  show "database (run qs num fs self (database (run qs num fs self conn))) = database (run qs num fs self conn)"
    by (simp add: run_database fold_write_idem)
  show "raised (run qs num fs self (database (run qs num fs self conn))) = raised (run qs num fs self conn)"
    by (simp add: run_raised)
  show "write_table conn df table_name table_name = Some (to_sql df)"
    by (simp add: write_table_def)
  show "\<forall>other. other \<noteq> table_name \<longrightarrow> write_table conn df table_name other = conn other"
    by (simp add: write_table_def)
qed


lemma check_required_columns_missing:
  assumes "filter (\<lambda>c. c \<notin> set (columns df)) required \<noteq> []"
  shows "check_required_columns df required table_name =
           Inl (KeyError table_name (filter (\<lambda>c. c \<notin> set (columns df)) required) (columns df))"
  using assms unfolding check_required_columns_def Let_def by simp

lemma preprocess_test_1_schema:
  assumes "read_csv fs (file_test_1 self) = Inr df_raw"
    and "filter (\<lambda>c. c \<notin> set (columns (apply_rename (strip_column_names df_raw) rename_map_test_1)))
           [''research_id'', ''Grade''] \<noteq> []"
  shows "preprocess_test_1 qs num fs self =
           Inl (KeyError ''Test_1''
                  (filter (\<lambda>c. c \<notin> set (columns (apply_rename (strip_column_names df_raw) rename_map_test_1)))
                     [''research_id'', ''Grade''])
                  (columns (apply_rename (strip_column_names df_raw) rename_map_test_1)))"
  unfolding preprocess_test_1_def and_then_def Let_def assms(1) sum.case
    check_required_columns_missing[OF assms(2)]
  by (rule refl)

lemma preprocess_test_2_schema:
  assumes "read_csv fs (file_test_2 self) = Inr df_raw"
    and "filter (\<lambda>c. c \<notin> set (columns (apply_rename (strip_column_names df_raw) rename_map_test_2)))
           [''research_id'', ''Grade''] \<noteq> []"
  shows "preprocess_test_2 qs num fs self =
           Inl (KeyError ''Test_2''
                  (filter (\<lambda>c. c \<notin> set (columns (apply_rename (strip_column_names df_raw) rename_map_test_2)))
                     [''research_id'', ''Grade''])
                  (columns (apply_rename (strip_column_names df_raw) rename_map_test_2)))"
  unfolding preprocess_test_2_def and_then_def Let_def assms(1) sum.case
    check_required_columns_missing[OF assms(2)]
  by (rule refl)

lemma preprocess_test_3_schema:
  assumes "read_csv fs (file_test_3 self) = Inr df_raw"
    and "filter (\<lambda>c. c \<notin> set (columns (apply_rename (strip_column_names df_raw) rename_map_test_3)))
           [''research_id'', ''Grade''] \<noteq> []"
  shows "preprocess_test_3 qs num fs self =
           Inl (KeyError ''Test_3''
                  (filter (\<lambda>c. c \<notin> set (columns (apply_rename (strip_column_names df_raw) rename_map_test_3)))
                     [''research_id'', ''Grade''])
                  (columns (apply_rename (strip_column_names df_raw) rename_map_test_3)))"
  unfolding preprocess_test_3_def and_then_def Let_def assms(1) sum.case
    check_required_columns_missing[OF assms(2)]
  by (rule refl)

lemma preprocess_test_4_schema:
  assumes "read_csv fs (file_test_4 self) = Inr df_raw"
    and "filter (\<lambda>c. c \<notin> set (columns (apply_rename (strip_column_names df_raw) rename_map_test_4)))
           [''research_id'', ''Grade''] \<noteq> []"
  shows "preprocess_test_4 qs num fs self =
           Inl (KeyError ''Test_4''
                  (filter (\<lambda>c. c \<notin> set (columns (apply_rename (strip_column_names df_raw) rename_map_test_4)))
                     [''research_id'', ''Grade''])
                  (columns (apply_rename (strip_column_names df_raw) rename_map_test_4)))"
  unfolding preprocess_test_4_def and_then_def Let_def assms(1) sum.case
    check_required_columns_missing[OF assms(2)]
  by (rule refl)

lemma preprocess_mock_test_schema:
  assumes "read_csv fs (file_mock self) = Inr df_raw"
    and "filter (\<lambda>c. c \<notin> set (columns (apply_rename (strip_column_names df_raw) rename_map_mock_test)))
           [''research_id'', ''Grade''] \<noteq> []"
  shows "preprocess_mock_test qs num fs self =
           Inl (KeyError ''Mock_Test''
                  (filter (\<lambda>c. c \<notin> set (columns (apply_rename (strip_column_names df_raw) rename_map_mock_test)))
                     [''research_id'', ''Grade''])
                  (columns (apply_rename (strip_column_names df_raw) rename_map_mock_test)))"
  unfolding preprocess_mock_test_def and_then_def Let_def assms(1) sum.case
    check_required_columns_missing[OF assms(2)]
  by (rule refl)

lemma preprocess_sum_test_schema:
  assumes "read_csv fs (file_sum self) = Inr df_raw"
    and "filter (\<lambda>c. c \<notin> set (columns (apply_rename (strip_column_names df_raw) rename_map_sum_test)))
           [''research_id'', ''Grade''] \<noteq> []"
  shows "preprocess_sum_test qs num fs self =
           Inl (KeyError ''Sum_Test''
                  (filter (\<lambda>c. c \<notin> set (columns (apply_rename (strip_column_names df_raw) rename_map_sum_test)))
                     [''research_id'', ''Grade''])
                  (columns (apply_rename (strip_column_names df_raw) rename_map_sum_test)))"
  unfolding preprocess_sum_test_def and_then_def Let_def assms(1) sum.case
    check_required_columns_missing[OF assms(2)]
  by (rule refl)


lemma written_not_failed:
  "(n, Inl e) \<in> set ts \<Longrightarrow> distinct (map fst ts) \<Longrightarrow> n \<notin> fst ` set (written ts)"
  by (induction ts rule: written.induct) force+

lemma first_error_failed: "(n, Inl e) \<in> set ts \<Longrightarrow> first_error ts \<noteq> None"
  by (induction ts rule: first_error.induct) auto

lemma written_subset: "(n, d) \<in> set (written ts) \<Longrightarrow> (n, Inr d) \<in> set ts"
  by (induction ts rule: written.induct) auto

lemma written_distinct: "distinct (map fst ts) \<Longrightarrow> distinct (map fst (written ts))"
  by (induction ts rule: written.induct) (force dest: written_subset)+

lemma run_tables_distinct: "distinct (map fst (run_tables qs num fs self))"
  by (simp add: run_tables_def)

lemma run_not_written:
  assumes "(n, Inl e) \<in> set (run_tables qs num fs self)"
  shows "database (run qs num fs self conn) n = conn n"
proof -
  have "n \<notin> fst ` set (written (run_tables qs num fs self))"
    using assms run_tables_distinct by (rule written_not_failed)
  then have "map_of (rev (written (run_tables qs num fs self))) n = None"
    by (simp add: map_of_eq_None_iff)
  then show ?thesis
    by (simp add: run_database fold_write_lookup)
qed

lemma run_written:
  assumes "(n, d) \<in> set (written (run_tables qs num fs self))"
  shows "database (run qs num fs self conn) n = Some (to_sql d)"
proof -
  have "distinct (map fst (rev (written (run_tables qs num fs self))))"
    using written_distinct[OF run_tables_distinct] by (simp add: rev_map[symmetric])
  moreover have "(n, d) \<in> set (rev (written (run_tables qs num fs self)))"
    using assms by simp
  ultimately have "map_of (rev (written (run_tables qs num fs self))) n = Some d"
    by (rule map_of_is_SomeI)
  then show ?thesis
    by (simp add: run_database fold_write_lookup)
qed

lemma assessments_cases:
  assumes "(table_name, file, rename_map, preprocess) \<in> set (assessments qs num)"
  obtains
      "table_name = ''Test_1''" "file = file_test_1" "rename_map = rename_map_test_1" "preprocess = preprocess_test_1 qs num"
    | "table_name = ''Test_2''" "file = file_test_2" "rename_map = rename_map_test_2" "preprocess = preprocess_test_2 qs num"
    | "table_name = ''Test_3''" "file = file_test_3" "rename_map = rename_map_test_3" "preprocess = preprocess_test_3 qs num"
    | "table_name = ''Test_4''" "file = file_test_4" "rename_map = rename_map_test_4" "preprocess = preprocess_test_4 qs num"
    | "table_name = ''Mock_Test''" "file = file_mock" "rename_map = rename_map_mock_test" "preprocess = preprocess_mock_test qs num"
    | "table_name = ''Sum_Test''" "file = file_sum" "rename_map = rename_map_sum_test" "preprocess = preprocess_sum_test qs num"
proof -
  from assms have
    "(table_name, file, rename_map, preprocess) = (''Test_1'', file_test_1, rename_map_test_1, preprocess_test_1 qs num)
     \<or> (table_name, file, rename_map, preprocess) = (''Test_2'', file_test_2, rename_map_test_2, preprocess_test_2 qs num)
     \<or> (table_name, file, rename_map, preprocess) = (''Test_3'', file_test_3, rename_map_test_3, preprocess_test_3 qs num)
     \<or> (table_name, file, rename_map, preprocess) = (''Test_4'', file_test_4, rename_map_test_4, preprocess_test_4 qs num)
     \<or> (table_name, file, rename_map, preprocess) = (''Mock_Test'', file_mock, rename_map_mock_test, preprocess_mock_test qs num)
     \<or> (table_name, file, rename_map, preprocess) = (''Sum_Test'', file_sum, rename_map_sum_test, preprocess_sum_test qs num)"
    by (simp only: assessments_def list.set insert_iff empty_iff disj_assoc simp_thms)
  then show thesis
    by (elim disjE) (simp only: prod.inject, elim conjE, erule (3) that)+
qed

lemma assessments_in_run:
  assumes "(table_name, file, rename_map, preprocess) \<in> set (assessments qs num)"
  shows "(table_name, preprocess fs self) \<in> set (run_tables qs num fs self)"
  using assms by (cases rule: assessments_cases) (simp_all add: run_tables_def)

lemma assessments_schema:
  assumes "(table_name, file, rename_map, preprocess) \<in> set (assessments qs num)"
    and "read_csv fs (file self) = Inr df_raw"
    and "filter (\<lambda>c. c \<notin> set (columns (apply_rename (strip_column_names df_raw) rename_map)))
           [''research_id'', ''Grade''] \<noteq> []"
  shows "preprocess fs self =
           Inl (KeyError table_name
                  (filter (\<lambda>c. c \<notin> set (columns (apply_rename (strip_column_names df_raw) rename_map)))
                     [''research_id'', ''Grade''])
                  (columns (apply_rename (strip_column_names df_raw) rename_map)))"
  using assms(1)
proof (cases rule: assessments_cases)
  case 1
  from assms(2,3) show ?thesis unfolding \<open>table_name = _\<close> \<open>file = _\<close> \<open>rename_map = _\<close> \<open>preprocess = _\<close> by (rule preprocess_test_1_schema)
next
  case 2
  from assms(2,3) show ?thesis unfolding \<open>table_name = _\<close> \<open>file = _\<close> \<open>rename_map = _\<close> \<open>preprocess = _\<close> by (rule preprocess_test_2_schema)
next
  case 3
  from assms(2,3) show ?thesis unfolding \<open>table_name = _\<close> \<open>file = _\<close> \<open>rename_map = _\<close> \<open>preprocess = _\<close> by (rule preprocess_test_3_schema)
next
  case 4
  from assms(2,3) show ?thesis unfolding \<open>table_name = _\<close> \<open>file = _\<close> \<open>rename_map = _\<close> \<open>preprocess = _\<close> by (rule preprocess_test_4_schema)
next
  case 5
  from assms(2,3) show ?thesis unfolding \<open>table_name = _\<close> \<open>file = _\<close> \<open>rename_map = _\<close> \<open>preprocess = _\<close> by (rule preprocess_mock_test_schema)
next
  case 6
  from assms(2,3) show ?thesis unfolding \<open>table_name = _\<close> \<open>file = _\<close> \<open>rename_map = _\<close> \<open>preprocess = _\<close> by (rule preprocess_sum_test_schema)
qed

text \<open>
  Claim C6. When the frame of a graded assessment lacks \<open>research_id\<close> or \<open>Grade\<close> after
  the renaming, its pipeline raises the \<open>KeyError\<close> that names the table and every missing
  required column. The run then ends with an exception, the table of that assessment is
  as it was before the run, and every table written before the exception holds its frame.
\<close>

theorem schema_error:
  assumes "(table_name, file, rename_map, preprocess) \<in> set (assessments qs num)"
    and "read_csv fs (file self) = Inr df_raw"
    and "df = apply_rename (strip_column_names df_raw) rename_map"
    and "missing = filter (\<lambda>c. c \<notin> set (columns df)) [''research_id'', ''Grade'']"
    and "missing \<noteq> []"
  shows "preprocess fs self = Inl (KeyError table_name missing (columns df))
       \<and> raised (run qs num fs self conn) \<noteq> None
       \<and> database (run qs num fs self conn) table_name = conn table_name
       \<and> (\<forall>(n, d) \<in> set (written (run_tables qs num fs self)).
             database (run qs num fs self conn) n = Some (to_sql d))"
proof -
  have p: "preprocess fs self = Inl (KeyError table_name missing (columns df))"
    using assessments_schema[OF assms(1,2)] assms(3,4,5) by simp
  have "(table_name, preprocess fs self) \<in> set (run_tables qs num fs self)"
    using assms(1) by (rule assessments_in_run)
  then have m: "(table_name, Inl (KeyError table_name missing (columns df))) \<in> set (run_tables qs num fs self)"
    by (simp only: p)
  have "raised (run qs num fs self conn) \<noteq> None"
    using first_error_failed[OF m] by (simp add: run_raised)
  moreover have "database (run qs num fs self conn) table_name = conn table_name"
    using m by (rule run_not_written)
  moreover have "\<forall>(n, d) \<in> set (written (run_tables qs num fs self)).
             database (run qs num fs self conn) n = Some (to_sql d)"
    using run_written by blast
  ultimately show ?thesis
    using p by blast
qed

subsection \<open>Runs on the example files\<close>

lemma test_1_bad: "preprocess_test_1 qs num fs_bad self0 = preprocess_test_1 qs num fs_ok self0"
  by (simp add: preprocess_test_1_def read_csv_def fs_bad_def self0_def)

lemma test_2_bad_read: "read_csv fs_bad (file_test_2 self0) = Inr test_2_bad_raw"
  by code_simp

lemma test_2_bad_missing:
  "filter (\<lambda>c. c \<notin> set (columns (apply_rename (strip_column_names test_2_bad_raw) rename_map_test_2)))
     [''research_id'', ''Grade''] = [''Grade'']"
  by code_simp

lemma test_2_bad_columns:
  "columns (apply_rename (strip_column_names test_2_bad_raw) rename_map_test_2) = [''research_id'', ''Grade/600'']"
  by code_simp

lemma test_2_bad:
  "preprocess_test_2 qs num fs_bad self0 = Inl (KeyError ''Test_2'' [''Grade''] [''research_id'', ''Grade/600''])"
  using preprocess_test_2_schema[OF test_2_bad_read, of qs num]
  by (simp add: test_2_bad_missing test_2_bad_columns)

lemma run_bad_first_error:
  "first_error (run_tables insertion_argsort num0 fs_bad self0)
     = Some (KeyError ''Test_2'' [''Grade''] [''research_id'', ''Grade/600''])"
  by (simp add: run_tables_def test_1_bad preprocess_test_1_example test_2_bad)

lemma run_bad_written:
  "written (run_tables insertion_argsort num0 fs_bad self0) = [(''Test_1'', test_1_normalised)]"
  by (simp add: run_tables_def test_1_bad preprocess_test_1_example test_2_bad)

text \<open>
  Claim C9, as stated, fails: the run on the files with the misnamed grade column ends
  with the \<open>KeyError\<close> of Test 2 and its connection is not closed.
\<close>

theorem open_after_exception:
  "raised (run insertion_argsort num0 fs_bad self0 no_tables)
     = Some (KeyError ''Test_2'' [''Grade''] [''research_id'', ''Grade/600''])
   \<and> \<not> conn_closed (run insertion_argsort num0 fs_bad self0 no_tables)"
  by (simp add: run_raised run_conn_closed run_bad_first_error)

text \<open>
  Claim C9, amended. A run, an underperformance analysis and a single-student comparison
  that end without an exception (normal completion, the not-found return, the empty-result
  return) have closed the connection they opened.
\<close>

theorem closed_on_return:
  "(raised (run qs num fs self conn) = None \<longrightarrow> conn_closed (run qs num fs self conn))
   \<and> (raised (find_underperforming_students qs' db) = None
        \<longrightarrow> conn_closed (find_underperforming_students qs' db))
   \<and> (raised (student_performance db' student_id test_name) = None
        \<longrightarrow> conn_closed (student_performance db' student_id test_name))"
proof (intro conjI)
  show "raised (run qs num fs self conn) = None \<longrightarrow> conn_closed (run qs num fs self conn)"
    by (simp add: run_raised run_conn_closed)
  show "raised (find_underperforming_students qs' db) = None
        \<longrightarrow> conn_closed (find_underperforming_students qs' db)"
    by (simp add: find_underperforming_students_def Let_def split: sum.splits prod.splits)
  show "raised (student_performance db' student_id test_name) = None
        \<longrightarrow> conn_closed (student_performance db' student_id test_name)"
    by (simp add: student_performance_def Let_def split: option.splits list.splits)
qed

lemma update_column_no_rows: "rows df = [] \<Longrightarrow> update_column c f df = df"
  by (simp add: update_column_def)

lemma arith_column_no_rows:
  "rows df = [] \<Longrightarrow> c \<in> set (columns df) \<Longrightarrow> arith_column c f df = Inr df"
  by (simp add: arith_column_def column_values_def update_column_no_rows)

lemma arith_columns_no_rows:
  "rows df = [] \<Longrightarrow> \<forall>c \<in> fst ` set cs. c \<in> set (columns df) \<Longrightarrow> arith_columns cs df = Inr df"
  by (induction cs) (auto simp: and_then_def arith_column_no_rows)

lemma scale_cols_to_100_no_rows: "rows df = [] \<Longrightarrow> scale_cols_to_100 df cols = Inr df"
  unfolding scale_cols_to_100_def by (rule arith_columns_no_rows) auto

lemma scale_cols_to_10000_no_rows:
  "rows df = [] \<Longrightarrow> \<not> list_ex (\<lambda>(col, max_score). max_score = 0) m \<Longrightarrow> scale_cols_to_10000 df m = Inr df"
  unfolding scale_cols_to_10000_def by (simp only: if_False) (rule arith_columns_no_rows, auto)

lemma normalise_grade_no_rows:
  "rows df = [] \<Longrightarrow> ''Grade'' \<in> set (columns df) \<Longrightarrow> grade_total \<noteq> 0
     \<Longrightarrow> normalise_grade_to_10000 df grade_total = Inr df"
  by (simp add: normalise_grade_to_10000_def arith_column_no_rows)

lemma round_grade_no_rows: "rows df = [] \<Longrightarrow> ''Grade'' \<in> set (columns df) \<Longrightarrow> round_grade df = Inr df"
  by (simp add: round_grade_def arith_column_no_rows)

lemma clean_no_rows: "rows df = [] \<Longrightarrow> clean_numeric_columns num df cols = df"
proof -
  assume r: "rows df = []"
  have "fold (\<lambda>col d. if col \<in> set (columns d) then update_column col f d else d) cols d = d"
    if "rows d = []" for d f
    using that by (induction cols) (simp_all add: update_column_no_rows)
  then show ?thesis
    using r by (simp add: clean_numeric_columns_def)
qed

lemma empty_grades_check: "check_required_columns empty_grades [''research_id'', ''Grade''] table_name = Inr ()"
  by (simp add: check_required_columns_def empty_grades_def)

lemma empty_grades_keep_best: "keep_best_attempt insertion_argsort empty_grades = Inr empty_grades"
  by code_simp

lemma empty_grades_remove: "remove_redundant_columns empty_grades [''State'', ''Time_taken''] = empty_grades"
  by code_simp

lemma empty_grades_rows: "rows empty_grades = []"
  by (simp add: empty_grades_def)

lemma empty_grades_Grade: "''Grade'' \<in> set (columns empty_grades)"
  by (simp add: empty_grades_def)

lemma test_2_read: "read_csv fs_ok (file_test_2 self0) = Inr (\<lparr>columns = [''research id'', ''Grade/700''], rows = []\<rparr>)"
  by code_simp

lemma test_2_rename:
  "apply_rename (strip_column_names \<lparr>columns = [''research id'', ''Grade/700''], rows = []\<rparr>) rename_map_test_2 = empty_grades"
  by code_simp

lemma test_2_ok: "preprocess_test_2 insertion_argsort num0 fs_ok self0 = Inr empty_grades"
  unfolding preprocess_test_2_def test_2_read and_then_def sum.case Let_def test_2_rename empty_grades_check
    empty_grades_keep_best empty_grades_remove clean_no_rows[OF empty_grades_rows]
  by (simp add: normalise_grade_no_rows round_grade_no_rows scale_cols_to_100_no_rows
      scale_cols_to_10000_no_rows empty_grades_rows empty_grades_Grade)

lemma test_3_read: "read_csv fs_ok (file_test_3 self0) = Inr (\<lparr>columns = [''research id'', ''Grade/600''], rows = []\<rparr>)"
  by code_simp

lemma test_3_rename:
  "apply_rename (strip_column_names \<lparr>columns = [''research id'', ''Grade/600''], rows = []\<rparr>) rename_map_test_3 = empty_grades"
  by code_simp

lemma test_3_ok: "preprocess_test_3 insertion_argsort num0 fs_ok self0 = Inr empty_grades"
  unfolding preprocess_test_3_def test_3_read and_then_def sum.case Let_def test_3_rename empty_grades_check
    empty_grades_keep_best empty_grades_remove clean_no_rows[OF empty_grades_rows]
  by (simp add: normalise_grade_no_rows round_grade_no_rows scale_cols_to_100_no_rows
      scale_cols_to_10000_no_rows empty_grades_rows empty_grades_Grade)

lemma test_4_read: "read_csv fs_ok (file_test_4 self0) = Inr (\<lparr>columns = [''research id'', ''Grade/1000''], rows = []\<rparr>)"
  by code_simp

lemma test_4_rename:
  "apply_rename (strip_column_names \<lparr>columns = [''research id'', ''Grade/1000''], rows = []\<rparr>) rename_map_test_4 = empty_grades"
  by code_simp

lemma test_4_ok: "preprocess_test_4 insertion_argsort num0 fs_ok self0 = Inr empty_grades"
  unfolding preprocess_test_4_def test_4_read and_then_def sum.case Let_def test_4_rename empty_grades_check
    empty_grades_keep_best empty_grades_remove clean_no_rows[OF empty_grades_rows]
  by (simp add: normalise_grade_no_rows round_grade_no_rows scale_cols_to_100_no_rows
      scale_cols_to_10000_no_rows empty_grades_rows empty_grades_Grade)

lemma mock_test_read: "read_csv fs_ok (file_mock self0) = Inr (\<lparr>columns = [''research id'', ''Grade/10000''], rows = []\<rparr>)"
  by code_simp

lemma mock_test_rename:
  "apply_rename (strip_column_names \<lparr>columns = [''research id'', ''Grade/10000''], rows = []\<rparr>) rename_map_mock_test = empty_grades"
  by code_simp

lemma mock_test_ok: "preprocess_mock_test insertion_argsort num0 fs_ok self0 = Inr empty_grades"
  unfolding preprocess_mock_test_def mock_test_read and_then_def sum.case Let_def mock_test_rename empty_grades_check
    empty_grades_keep_best empty_grades_remove clean_no_rows[OF empty_grades_rows]
  by (simp add: normalise_grade_no_rows round_grade_no_rows scale_cols_to_100_no_rows
      scale_cols_to_10000_no_rows empty_grades_rows empty_grades_Grade)

lemma sum_test_read: "read_csv fs_ok (file_sum self0) = Inr (\<lparr>columns = [''research id'', ''Grade/10000''], rows = []\<rparr>)"
  by code_simp

lemma sum_test_rename:
  "apply_rename (strip_column_names \<lparr>columns = [''research id'', ''Grade/10000''], rows = []\<rparr>) rename_map_sum_test = empty_grades"
  by code_simp

lemma sum_test_ok: "preprocess_sum_test insertion_argsort num0 fs_ok self0 = Inr empty_grades"
  unfolding preprocess_sum_test_def sum_test_read and_then_def sum.case Let_def sum_test_rename empty_grades_check
    empty_grades_keep_best empty_grades_remove clean_no_rows[OF empty_grades_rows]
  by (simp add: normalise_grade_no_rows round_grade_no_rows scale_cols_to_100_no_rows
      scale_cols_to_10000_no_rows empty_grades_rows empty_grades_Grade)

lemma rate_ok: "preprocess_student_rate fs_ok self0 = Inr rate_frame"
  by code_simp

lemma run_ok_first_error: "first_error (run_tables insertion_argsort num0 fs_ok self0) = None"
  by (simp add: run_tables_def preprocess_test_1_example test_2_ok test_3_ok test_4_ok mock_test_ok rate_ok sum_test_ok)

theorem closed_on_return_witness:
  "raised (run insertion_argsort num0 fs_ok self0 no_tables) = None
   \<and> conn_closed (run insertion_argsort num0 fs_ok self0 no_tables)
   \<and> raised (find_underperforming_students insertion_argsort db0) = None
   \<and> conn_closed (find_underperforming_students insertion_argsort db0)
   \<and> raised (student_performance db_q (Str ''S9'') ''Test_1'') = None
   \<and> conn_closed (student_performance db_q (Str ''S9'') ''Test_1'')"
proof -
  have 1: "raised (run insertion_argsort num0 fs_ok self0 no_tables) = None"
    by (simp add: run_raised run_ok_first_error)
  have 2: "raised (find_underperforming_students insertion_argsort db0) = None"
    by (simp add: find_underperforming_students_def load_frames_db0 Let_def)
  have 3: "raised (student_performance db_q (Str ''S9'') ''Test_1'') = None"
    by code_simp
  from closed_on_return[of insertion_argsort num0 fs_ok self0 no_tables insertion_argsort db0 db_q "Str ''S9''" "''Test_1''"] 1 2 3
  show ?thesis by blast
qed


theorem schema_error_witness:
  "(''Test_2'', file_test_2, rename_map_test_2, preprocess_test_2 insertion_argsort num0)
     \<in> set (assessments insertion_argsort num0)
   \<and> read_csv fs_bad (file_test_2 self0) = Inr test_2_bad_raw
   \<and> filter (\<lambda>c. c \<notin> set (columns (apply_rename (strip_column_names test_2_bad_raw) rename_map_test_2)))
         [''research_id'', ''Grade''] = [''Grade'']
   \<and> preprocess_test_2 insertion_argsort num0 fs_bad self0
         = Inl (KeyError ''Test_2'' [''Grade''] [''research_id'', ''Grade/600''])
   \<and> raised (run insertion_argsort num0 fs_bad self0 no_tables) \<noteq> None
   \<and> database (run insertion_argsort num0 fs_bad self0 no_tables) ''Test_2'' = None
   \<and> database (run insertion_argsort num0 fs_bad self0 no_tables) ''Test_1'' = Some (to_sql test_1_normalised)"
proof -
  have a: "(''Test_2'', file_test_2, rename_map_test_2, preprocess_test_2 insertion_argsort num0)
             \<in> set (assessments insertion_argsort num0)"
    by (simp add: assessments_def)
  have m: "filter (\<lambda>c. c \<notin> set (columns (apply_rename (strip_column_names test_2_bad_raw) rename_map_test_2)))
             [''research_id'', ''Grade''] \<noteq> []"
    by (simp only: test_2_bad_missing) simp
  have w: "(''Test_1'', test_1_normalised) \<in> set (written (run_tables insertion_argsort num0 fs_bad self0))"
    by (simp add: run_bad_written)
  from schema_error[OF a test_2_bad_read refl refl m, of no_tables] w
  have "preprocess_test_2 insertion_argsort num0 fs_bad self0
          = Inl (KeyError ''Test_2'' [''Grade''] [''research_id'', ''Grade/600''])
      \<and> raised (run insertion_argsort num0 fs_bad self0 no_tables) \<noteq> None
      \<and> database (run insertion_argsort num0 fs_bad self0 no_tables) ''Test_2'' = no_tables ''Test_2''
      \<and> database (run insertion_argsort num0 fs_bad self0 no_tables) ''Test_1'' = Some (to_sql test_1_normalised)"
    by (auto simp: test_2_bad_columns)
  then show ?thesis
    using a test_2_bad_read test_2_bad_missing by (simp add: no_tables_def)
qed

theorem rerun_idempotent_witness:
  "''Test_2'' \<noteq> ''Test_1''
   \<and> write_table no_tables test_1_normalised ''Test_1'' ''Test_2'' = no_tables ''Test_2''
   \<and> write_table no_tables test_1_normalised ''Test_1'' ''Test_1'' = Some (to_sql test_1_normalised)
   \<and> database (run insertion_argsort num0 fs_ok self0 (database (run insertion_argsort num0 fs_ok self0 no_tables)))
       = database (run insertion_argsort num0 fs_ok self0 no_tables)"
  using rerun_idempotent[of insertion_argsort num0 fs_ok self0 no_tables test_1_normalised "''Test_1''"]
  by simp

subsection \<open>The deduplication, the coercion and the grade on the example frames\<close>




lemma test_1_best_aligned: "aligned test_1_best"
  by (simp add: aligned_def test_1_best_def)

theorem coercion_to_zero_witness:
  "aligned test_1_best
   \<and> ''Q1'' \<in> set [''Grade'', ''Q1'', ''Q2'', ''Q3'', ''Q4'', ''Q5'', ''Q6'']
   \<and> ''Q1'' \<in> set (columns test_1_best) \<and> 1 < length (rows test_1_best)
   \<and> cell_at test_1_best ''Q1'' (rows test_1_best ! 1) = Str ''-''
   \<and> is_number (cell_at (clean_numeric_columns num0 test_1_best [''Grade'', ''Q1'', ''Q2'', ''Q3'', ''Q4'', ''Q5'', ''Q6''])
        ''Q1'' (rows (clean_numeric_columns num0 test_1_best [''Grade'', ''Q1'', ''Q2'', ''Q3'', ''Q4'', ''Q5'', ''Q6'']) ! 1))
   \<and> cell_at (clean_numeric_columns num0 test_1_best [''Grade'', ''Q1'', ''Q2'', ''Q3'', ''Q4'', ''Q5'', ''Q6''])
        ''Q1'' (rows (clean_numeric_columns num0 test_1_best [''Grade'', ''Q1'', ''Q2'', ''Q3'', ''Q4'', ''Q5'', ''Q6'']) ! 1)
       = Num 0"
proof -
  have 1: "''Q1'' \<in> set [''Grade'', ''Q1'', ''Q2'', ''Q3'', ''Q4'', ''Q5'', ''Q6'']"
    by simp
  have 2: "''Q1'' \<in> set (columns test_1_best)" and 3: "1 < length (rows test_1_best)"
    by (simp_all add: test_1_best_def)
  have 4: "cell_at test_1_best ''Q1'' (rows test_1_best ! 1) = Str ''-''"
    by code_simp
  from coercion_to_zero[OF test_1_best_aligned 1 2 3 4[symmetric] refl refl, of num0] 4
  show ?thesis
    using test_1_best_aligned 1 2 3 by simp
qed




end
